theory Spec2Isabelle
  imports Main "HOL-Library.Word" "HOL-Library.AList" "HOL-Library.Sublist"
begin

section \<open>Values, exceptions and the outside world\<close>

text \<open>
  The three scripts \<^verbatim>\<open>fetch_email.py\<close>, \<^verbatim>\<open>send_email.py\<close> and
  \<^verbatim>\<open>create_calendar_event.py\<close> are embedded as state-passing functions. A Python
  exception (including the \<^verbatim>\<open>SystemExit\<close> of \<^verbatim>\<open>sys.exit\<close> and of
  \<^verbatim>\<open>parser.error\<close>) is the left summand of the result; the world that a function leaves
  behind is returned beside the result, also when it raises.
\<close>

datatype exn =
    SystemExit nat
  | ValueError
  | BinasciiError
  | KeyError string
  | OverflowError
  | OSError
  | RefreshError
  | HttpError
  | ConnectionError

type_synonym byte = "8 word"

text \<open>
  A Python string that holds text of a message, of a reply or of the output is the list of
  its characters, each character being its Unicode code point. \<^verbatim>\<open>py\<close> gives the
  Python string of a literal of the source. The fixed names of the configuration and the
  values of the command line of \<^verbatim>\<open>create_calendar_event.py\<close> stay of type
  \<^typ>\<open>string\<close>.
\<close>

type_synonym pystr = "nat list"

definition py :: "string \<Rightarrow> pystr" where
  "py s = map of_char s"

text \<open>
  An OAuth credential as \<^verbatim>\<open>google.oauth2.credentials.Credentials\<close> shows it to the
  scripts: the access token, the refresh token, whether the expiry has passed at the time
  of the run, and the scope list.
\<close>

record credentials =
  token :: "string option"
  refresh_token :: "string option"
  expired :: bool
  scopes :: "string list"

text \<open>The library's property \<^verbatim>\<open>valid\<close>: there is a token and it has not expired.\<close>

definition valid :: "credentials \<Rightarrow> bool" where
  "valid creds = (token creds \<noteq> None \<and> \<not> expired creds)"

text \<open>Python truthiness of an optional string: neither \<^verbatim>\<open>None\<close> nor empty.\<close>

fun truthy :: "string option \<Rightarrow> bool" where
  "truthy None = False"
| "truthy (Some s) = (s \<noteq> [])"

text \<open>What \<^verbatim>\<open>credentials/token.json\<close> holds when it exists.\<close>

datatype file_content = Unparseable | Token credentials

record response =
  status_code :: int
  resp_text :: pystr

text \<open>
  The payload of a message resource of the mail API. A field is optional exactly where the
  code tests for its presence: \<^verbatim>\<open>parts\<close> and \<^verbatim>\<open>body\<close> of the payload, and
  \<^verbatim>\<open>data\<close> of a body. The fields that the code reads without a test are always there
  in a resource of the API.
\<close>

record msg_body =
  body_data :: "pystr option"

record part =
  part_mimeType :: pystr
  part_body :: msg_body

record payload =
  payload_headers :: "(pystr \<times> pystr) list"
  payload_parts :: "part list option"
  payload_body :: "msg_body option"

text \<open>Python dictionaries that are sent as JSON keep their insertion order.\<close>

datatype json =
    JStr string
  | JInt int
  | JBool bool
  | JList "json list"
  | JObj "(string \<times> json) list"

type_synonym dict = "(string \<times> json) list"

record created_event =
  ev_summary :: "string option"
  ev_htmlLink :: "string option"

text \<open>
  Every interaction with a remote service or with the token file is appended to a trace,
  in the order in which the program performs it. A message fetch and a note-creation call
  are recorded with the reply they received.
\<close>

datatype event =
    RefreshCall
  | RunFlow "string list"
  | WriteToken credentials
  | ListCall nat
  | GetCall pystr "exn + payload"
  | ModifyCall pystr
  | PostCall pystr "exn + response"
  | InsertCall json

text \<open>
  The environment of a run: configuration, the file system facts the scripts test, and the
  remote services as oracles. An oracle sees the trace so far, so a service may answer the
  same request differently at different times. \<^verbatim>\<open>TOKEN_FILE\<close> and
  \<^verbatim>\<open>CREDENTIALS_FILE\<close> are the two paths as they are printed. The URL and the
  headers of the note-creation call are fixed by the configuration and are not recorded.
\<close>

record env =
  MEMOS_API_TOKEN :: "string option"
  TOKEN_FILE :: string
  CREDENTIALS_FILE :: string
  credentials_file_exists :: bool
  disk_writable :: bool
  refresh_reply :: "event list \<Rightarrow> credentials \<Rightarrow> exn + string"
  flow_reply :: "event list \<Rightarrow> string list \<Rightarrow> exn + credentials"
  list_reply :: "event list \<Rightarrow> nat \<Rightarrow> exn + pystr list option"
  get_reply :: "event list \<Rightarrow> pystr \<Rightarrow> exn + payload"
  modify_reply :: "event list \<Rightarrow> pystr \<Rightarrow> exn + unit"
  post_reply :: "event list \<Rightarrow> pystr \<Rightarrow> exn + response"
  insert_reply :: "event list \<Rightarrow> json \<Rightarrow> exn + created_event"

record world =
  token_file :: "file_content option"
  trace :: "event list"
  stdout :: "pystr list"

definition emit :: "event \<Rightarrow> world \<Rightarrow> world" where
  "emit ev w = w\<lparr>trace := trace w @ [ev]\<rparr>"

definition print :: "pystr \<Rightarrow> world \<Rightarrow> world" where
  "print s w = w\<lparr>stdout := stdout w @ [s]\<rparr>"

datatype service = Service string string credentials

subsection \<open>Formatting integers\<close>

text \<open>\<^verbatim>\<open>str(n)\<close> in an f-string: the decimal digits, without padding.\<close>

definition digit_char :: "nat \<Rightarrow> char" where
  "digit_char d = ''0123456789'' ! (d mod 10)"

fun str_nat :: "nat \<Rightarrow> string" where
  "str_nat n =
     (if n < 10 then [digit_char n]
      else str_nat (n div 10) @ [digit_char (n mod 10)])"

definition str_int :: "int \<Rightarrow> string" where
  "str_int i = (if i < 0 then CHR ''-'' # str_nat (nat (- i)) else str_nat (nat i))"

section \<open>Credential handling shared by the scripts\<close>

text \<open>
  \<^verbatim>\<open>Credentials.from_authorized_user_file(path, SCOPES)\<close>: the scope list passed by the
  caller replaces the one stored in the file; a file that does not parse raises
  \<^verbatim>\<open>ValueError\<close>.
\<close>

fun from_authorized_user_file :: "file_content \<Rightarrow> string list \<Rightarrow> exn + credentials" where
  "from_authorized_user_file Unparseable SCOPES = Inl ValueError"
| "from_authorized_user_file (Token creds) SCOPES = Inr (creds\<lparr>scopes := SCOPES\<rparr>)"

text \<open>
  \<^verbatim>\<open>creds.refresh(Request())\<close>: one call to the token endpoint. A reply carries the new
  access token, which the library stores with a fresh expiry; a failure is raised.
\<close>

definition refresh :: "env \<Rightarrow> credentials \<Rightarrow> world \<Rightarrow> (exn + credentials) \<times> world" where
  "refresh env creds w =
     (case refresh_reply env (trace w) creds of
        Inl e \<Rightarrow> (Inl e, emit RefreshCall w)
      | Inr t \<Rightarrow> (Inr (creds\<lparr>token := Some t, expired := False\<rparr>), emit RefreshCall w))"

text \<open>
  The interactive branch of \<^verbatim>\<open>fetch_email.py\<close> and \<^verbatim>\<open>create_calendar_event.py\<close>:
  \<^verbatim>\<open>sys.exit(1)\<close> when the client secrets file is missing, otherwise
  \<^verbatim>\<open>InstalledAppFlow.from_client_secrets_file(..., SCOPES)\<close> and
  \<^verbatim>\<open>flow.run_local_server(port=0)\<close>.
\<close>

definition run_flow :: "env \<Rightarrow> string list \<Rightarrow> world \<Rightarrow> (exn + credentials) \<times> world" where
  "run_flow env SCOPES w =
     (if \<not> credentials_file_exists env then
        (Inl (SystemExit 1),
         print (py (''Error: Credentials file not found at '' @ CREDENTIALS_FILE env)) w)
      else
        (case flow_reply env (trace w) SCOPES of
           Inl e \<Rightarrow> (Inl e, emit (RunFlow SCOPES) w)
         | Inr creds \<Rightarrow> (Inr creds, emit (RunFlow SCOPES) w)))"

text \<open>
  The end of the same two functions, after a refresh or a grant that did not raise:
  \<^verbatim>\<open>with open(TOKEN_FILE, 'w') as f: f.write(creds.to_json())\<close>, the line printed after
  it, and \<^verbatim>\<open>return build(api, version, credentials=creds)\<close>.
\<close>

definition save_token :: "env \<Rightarrow> credentials \<Rightarrow> world \<Rightarrow> (exn + unit) \<times> world" where
  "save_token env creds w =
     (if disk_writable env then
        (Inr (),
         print (py (''Token saved to '' @ TOKEN_FILE env))
           ((emit (WriteToken creds) w)\<lparr>token_file := Some (Token creds)\<rparr>))
      else (Inl OSError, w))"

definition save_and_build ::
  "env \<Rightarrow> string \<Rightarrow> string \<Rightarrow> (exn + credentials) \<times> world \<Rightarrow> (exn + service) \<times> world" where
  "save_and_build env api version r =
     (case r of
        (Inl e, w1) \<Rightarrow> (Inl e, w1)
      | (Inr creds, w1) \<Rightarrow>
          (case save_token env creds w1 of
             (Inl e, w2) \<Rightarrow> (Inl e, w2)
           | (Inr u, w2) \<Rightarrow> (Inr (Service api version creds), w2)))"

section \<open>fetch\_email.py\<close>

definition fetch_SCOPES :: "string list" where
  "fetch_SCOPES =
     [''https://www.googleapis.com/auth/gmail.readonly'',
      ''https://www.googleapis.com/auth/gmail.modify'',
      ''https://www.googleapis.com/auth/gmail.send'']"

text \<open>
  \<^verbatim>\<open>get_gmail_service\<close> of \<^verbatim>\<open>fetch_email.py\<close>. The test
  \<^verbatim>\<open>not creds or not creds.valid\<close> is the first two branches below; inside it,
  \<^verbatim>\<open>creds and creds.expired and creds.refresh_token\<close> chooses the refresh.
\<close>

definition fetch_get_gmail_service :: "env \<Rightarrow> world \<Rightarrow> (exn + service) \<times> world" where
  "fetch_get_gmail_service env w =
     (case token_file w of
        None \<Rightarrow> save_and_build env ''gmail'' ''v1'' (run_flow env fetch_SCOPES w)
      | Some f \<Rightarrow>
          (case from_authorized_user_file f fetch_SCOPES of
             Inl e \<Rightarrow> (Inl e, w)
           | Inr creds \<Rightarrow>
               if \<not> valid creds then
                 save_and_build env ''gmail'' ''v1''
                   (if expired creds \<and> truthy (refresh_token creds) then refresh env creds w
                    else run_flow env fetch_SCOPES w)
               else (Inr (Service ''gmail'' ''v1'' creds), w)))"

subsection \<open>Decoding a message body\<close>

text \<open>
  \<^verbatim>\<open>base64.urlsafe_b64decode\<close> on a string, as CPython computes it: a character
  outside ASCII raises \<^verbatim>\<open>ValueError\<close>; \<^verbatim>\<open>-\<close> and \<^verbatim>\<open>_\<close> stand for
  \<^verbatim>\<open>+\<close> and \<^verbatim>\<open>/\<close>; then the lenient decoder of \<^verbatim>\<open>binascii.a2b_base64\<close>
  runs, which skips characters outside the alphabet, stops at a completed padding and
  raises \<^verbatim>\<open>binascii.Error\<close> when the input ends inside a group of four.
\<close>

definition b64_value :: "nat \<Rightarrow> nat option" where
  "b64_value c =
     (if 65 \<le> c \<and> c \<le> 90 then Some (c - 65)
      else if 97 \<le> c \<and> c \<le> 122 then Some (c - 71)
      else if 48 \<le> c \<and> c \<le> 57 then Some (c + 4)
      else if c = of_char CHR ''+'' then Some 62
      else if c = of_char CHR ''/'' then Some 63
      else None)"

fun a2b_base64 :: "pystr \<Rightarrow> nat \<Rightarrow> nat \<Rightarrow> nat \<Rightarrow> byte list \<Rightarrow> exn + byte list" where
  "a2b_base64 [] quad_pos leftchar pads out =
     (if quad_pos \<noteq> 0 then Inl BinasciiError else Inr out)"
| "a2b_base64 (c # cs) quad_pos leftchar pads out =
     (if c = of_char CHR ''='' then
        (if quad_pos \<ge> 2 then
           (if quad_pos + (pads + 1) \<ge> 4 then Inr out
            else a2b_base64 cs quad_pos leftchar (pads + 1) out)
         else a2b_base64 cs quad_pos leftchar pads out)
      else
        (case b64_value c of
           None \<Rightarrow> a2b_base64 cs quad_pos leftchar pads out
         | Some this_ch \<Rightarrow>
             if quad_pos = 0 then a2b_base64 cs 1 this_ch 0 out
             else if quad_pos = 1 then
               a2b_base64 cs 2 (this_ch mod 16) 0
                 (out @ [word_of_nat (leftchar * 4 + this_ch div 16)])
             else if quad_pos = 2 then
               a2b_base64 cs 3 (this_ch mod 4) 0
                 (out @ [word_of_nat (leftchar * 16 + this_ch div 4)])
             else
               a2b_base64 cs 0 0 0 (out @ [word_of_nat (leftchar * 64 + this_ch)])))"

definition urlsafe_translate :: "nat \<Rightarrow> nat" where
  "urlsafe_translate c =
     (if c = of_char CHR ''-'' then of_char CHR ''+''
      else if c = of_char CHR ''_'' then of_char CHR ''/''
      else c)"

definition urlsafe_b64decode :: "pystr \<Rightarrow> exn + byte list" where
  "urlsafe_b64decode s =
     (if \<exists>c \<in> set s. c \<ge> 128 then Inl ValueError
      else a2b_base64 (map urlsafe_translate s) 0 0 0 [])"

text \<open>
  \<^verbatim>\<open>bytes.decode('utf-8', errors='ignore')\<close>, as CPython computes it, on the values of
  the bytes. A well-formed sequence of one to four bytes gives one character. At a byte
  that can not start a sequence, that byte is skipped. At a start byte whose sequence is
  broken by its second, third or fourth byte, the bytes before the breaking byte are
  skipped and decoding goes on at the breaking byte; a second byte that would give an
  overlong form, a surrogate or a code point above 10FFFF breaks the sequence. When the
  input ends inside a sequence that is well-formed so far, the rest is skipped. Nothing is
  raised.
\<close>

definition is_continuation :: "nat \<Rightarrow> bool" where
  "is_continuation ch = (0x80 \<le> ch \<and> ch < 0xC0)"

fun utf8_decode :: "nat list \<Rightarrow> pystr" where
  "utf8_decode [] = []"
| "utf8_decode (ch # s) =
     (if ch < 0x80 then ch # utf8_decode s
      else if ch < 0xC2 then utf8_decode s
      else if ch < 0xE0 then
        (case s of
           [] \<Rightarrow> []
         | ch2 # s2 \<Rightarrow>
             if \<not> is_continuation ch2 then utf8_decode s
             else (ch * 64 + ch2 - (0xC0 * 64 + 0x80)) # utf8_decode s2)
      else if ch < 0xF0 then
        (case s of
           [] \<Rightarrow> []
         | [ch2] \<Rightarrow>
             if \<not> is_continuation ch2 \<or> (if ch2 < 0xA0 then ch = 0xE0 else ch = 0xED)
             then utf8_decode s
             else []
         | ch2 # ch3 # s3 \<Rightarrow>
             if \<not> is_continuation ch2 then utf8_decode s
             else if ch = 0xE0 \<and> ch2 < 0xA0 then utf8_decode s
             else if ch = 0xED \<and> ch2 \<ge> 0xA0 then utf8_decode s
             else if \<not> is_continuation ch3 then utf8_decode (ch3 # s3)
             else (ch * 4096 + ch2 * 64 + ch3 - (0xE0 * 4096 + 0x80 * 64 + 0x80))
                  # utf8_decode s3)
      else if ch < 0xF5 then
        (case s of
           [] \<Rightarrow> []
         | [ch2] \<Rightarrow>
             if \<not> is_continuation ch2 \<or> (if ch2 < 0x90 then ch = 0xF0 else ch = 0xF4)
             then utf8_decode s
             else []
         | [ch2, ch3] \<Rightarrow>
             if \<not> is_continuation ch2 \<or> (if ch2 < 0x90 then ch = 0xF0 else ch = 0xF4)
             then utf8_decode s
             else if \<not> is_continuation ch3 then utf8_decode [ch3]
             else []
         | ch2 # ch3 # ch4 # s4 \<Rightarrow>
             if \<not> is_continuation ch2 then utf8_decode s
             else if ch = 0xF0 \<and> ch2 < 0x90 then utf8_decode s
             else if ch = 0xF4 \<and> ch2 \<ge> 0x90 then utf8_decode s
             else if \<not> is_continuation ch3 then utf8_decode (ch3 # ch4 # s4)
             else if \<not> is_continuation ch4 then utf8_decode (ch4 # s4)
             else (ch * 262144 + ch2 * 4096 + ch3 * 64 + ch4
                     - (0xF0 * 262144 + 0x80 * 4096 + 0x80 * 64 + 0x80))
                  # utf8_decode s4)
      else utf8_decode s)"

definition utf8_decode_ignore :: "byte list \<Rightarrow> pystr" where
  "utf8_decode_ignore bs = utf8_decode (map unat bs)"

text \<open>\<^verbatim>\<open>base64.urlsafe_b64decode(data).decode('utf-8', errors='ignore')\<close>.\<close>

definition decode_body :: "pystr \<Rightarrow> exn + pystr" where
  "decode_body data =
     (case urlsafe_b64decode data of
        Inl e \<Rightarrow> Inl e
      | Inr bs \<Rightarrow> Inr (utf8_decode_ignore bs))"

subsection \<open>Listing unread mail\<close>

record email =
  e_id :: pystr
  e_subject :: pystr
  e_from :: pystr
  e_date :: pystr
  e_body :: pystr

text \<open>
  \<^verbatim>\<open>{h['name']: h['value'] for h in headers}\<close>: a later header of the same name
  replaces an earlier one.
\<close>

definition headers_dict :: "(pystr \<times> pystr) list \<Rightarrow> (pystr \<rightharpoonup> pystr)" where
  "headers_dict hs = fold (\<lambda>(name, v) d. d(name \<mapsto> v)) hs Map.empty"

text \<open>\<^verbatim>\<open>d.get(key, default)\<close>.\<close>

definition get_default :: "(pystr \<rightharpoonup> pystr) \<Rightarrow> pystr \<Rightarrow> pystr \<Rightarrow> pystr" where
  "get_default d k dflt = (case d k of None \<Rightarrow> dflt | Some v \<Rightarrow> v)"

text \<open>
  The loop over \<^verbatim>\<open>payload['parts']\<close>: the first part of type \<^verbatim>\<open>text/plain\<close> is
  decoded (\<^verbatim>\<open>part['body'].get('data', '')\<close>) and ends the loop; without such a part the
  body stays empty.
\<close>

fun parts_body :: "part list \<Rightarrow> exn + pystr" where
  "parts_body [] = Inr []"
| "parts_body (p # ps) =
     (if part_mimeType p = py ''text/plain'' then
        decode_body (case body_data (part_body p) of None \<Rightarrow> [] | Some d \<Rightarrow> d)
      else parts_body ps)"

definition get_body :: "payload \<Rightarrow> exn + pystr" where
  "get_body pl =
     (case payload_parts pl of
        Some ps \<Rightarrow> parts_body ps
      | None \<Rightarrow>
          (case payload_body pl of
             Some b \<Rightarrow>
               (case body_data b of
                  Some d \<Rightarrow> decode_body d
                | None \<Rightarrow> Inr [])
           | None \<Rightarrow> Inr []))"

text \<open>The dictionary appended to \<^verbatim>\<open>emails\<close> for one fetched message.\<close>

definition make_email :: "pystr \<Rightarrow> payload \<Rightarrow> pystr \<Rightarrow> email" where
  "make_email msg_id pl body =
     (let headers = headers_dict (payload_headers pl) in
      \<lparr>e_id = msg_id,
       e_subject = get_default headers (py ''Subject'') (py ''(no subject)''),
       e_from = get_default headers (py ''From'') (py ''(unknown sender)''),
       e_date = get_default headers (py ''Date'') [],
       e_body = take 5000 body\<rparr>)"

text \<open>The loop \<^verbatim>\<open>for msg in messages\<close> of \<^verbatim>\<open>get_unread_emails\<close>.\<close>

fun fetch_each ::
  "env \<Rightarrow> pystr list \<Rightarrow> email list \<Rightarrow> world \<Rightarrow> (exn + email list) \<times> world" where
  "fetch_each env [] emails w = (Inr emails, w)"
| "fetch_each env (msg_id # rest) emails w =
     (case get_reply env (trace w) msg_id of
        Inl e \<Rightarrow> (Inl e, emit (GetCall msg_id (Inl e)) w)
      | Inr pl \<Rightarrow>
          (case get_body pl of
             Inl e \<Rightarrow> (Inl e, emit (GetCall msg_id (Inr pl)) w)
           | Inr body \<Rightarrow>
               fetch_each env rest (emails @ [make_email msg_id pl body])
                 (emit (GetCall msg_id (Inr pl)) w)))"

definition get_unread_emails ::
  "env \<Rightarrow> service \<Rightarrow> nat \<Rightarrow> world \<Rightarrow> (exn + email list) \<times> world" where
  "get_unread_emails env service max_results w =
     (case list_reply env (trace w) max_results of
        Inl e \<Rightarrow> (Inl e, emit (ListCall max_results) w)
      | Inr results \<Rightarrow>
          fetch_each env (case results of None \<Rightarrow> [] | Some messages \<Rightarrow> messages) []
            (emit (ListCall max_results) w))"

subsection \<open>Creating notes and marking mail as read\<close>

definition mark_as_read :: "env \<Rightarrow> service \<Rightarrow> pystr \<Rightarrow> world \<Rightarrow> (exn + unit) \<times> world" where
  "mark_as_read env service msg_id w =
     (case modify_reply env (trace w) msg_id of
        Inl e \<Rightarrow> (Inl e, emit (ModifyCall msg_id) w)
      | Inr u \<Rightarrow> (Inr (), emit (ModifyCall msg_id) w))"

definition create_memo :: "env \<Rightarrow> pystr \<Rightarrow> world \<Rightarrow> (exn + bool) \<times> world" where
  "create_memo env content w =
     (if \<not> truthy (MEMOS_API_TOKEN env) then
        (Inr False, print (py ''Error: MEMOS_API_TOKEN not set'') w)
      else
        (case post_reply env (trace w) content of
           Inl e \<Rightarrow> (Inl e, emit (PostCall content (Inl e)) w)
         | Inr response \<Rightarrow>
             if status_code response = 200 then
               (Inr True, emit (PostCall content (Inr response)) w)
             else
               (Inr False,
                print (py ''Error creating memo: '' @ py (str_int (status_code response))
                         @ py '' '' @ resp_text response)
                  (emit (PostCall content (Inr response)) w))))"

definition NL :: pystr where
  "NL = [0x0A]"

definition email_to_memo_content :: "email \<Rightarrow> pystr" where
  "email_to_memo_content email =
     py ''#inbox #email'' @ NL @ NL
     @ py ''**From:** '' @ e_from email @ NL
     @ py ''**Subject:** '' @ e_subject email @ NL
     @ py ''**Date:** '' @ e_date email @ NL @ NL
     @ py ''---'' @ NL @ NL
     @ e_body email @ NL"

subsection \<open>The sync run\<close>

text \<open>The two marks printed by the loop: the characters with the code points 2713 and 2717.\<close>

definition CHECK_MARK :: pystr where
  "CHECK_MARK = [0x2713]"

definition BALLOT_X :: pystr where
  "BALLOT_X = [0x2717]"

text \<open>The loop \<^verbatim>\<open>for email in emails\<close> of \<^verbatim>\<open>main\<close>.\<close>

fun process_emails :: "env \<Rightarrow> service \<Rightarrow> email list \<Rightarrow> world \<Rightarrow> (exn + unit) \<times> world" where
  "process_emails env service [] w = (Inr (), w)"
| "process_emails env service (email # rest) w =
     (case create_memo env (email_to_memo_content email)
             (print (py ''  Processing: '' @ take 50 (e_subject email) @ py ''...'') w) of
        (Inl e, w1) \<Rightarrow> (Inl e, w1)
      | (Inr created, w1) \<Rightarrow>
          if created then
            (case mark_as_read env service (e_id email) w1 of
               (Inl e, w2) \<Rightarrow> (Inl e, w2)
             | (Inr u, w2) \<Rightarrow>
                 process_emails env service rest
                   (print (py ''    '' @ CHECK_MARK @ py '' Created memo, marked as read'') w2))
          else
            process_emails env service rest
              (print (py ''    '' @ BALLOT_X @ py '' Failed to create memo'') w1))"

definition fetch_main :: "env \<Rightarrow> string list \<Rightarrow> world \<Rightarrow> (exn + unit) \<times> world" where
  "fetch_main env argv w =
     (if ''--auth'' \<in> set argv then
        (case fetch_get_gmail_service env (print (py ''Running OAuth flow...'') w) of
           (Inl e, w1) \<Rightarrow> (Inl e, w1)
         | (Inr service, w1) \<Rightarrow> (Inr (), print (py ''Authentication successful!'') w1))
      else if \<not> truthy (MEMOS_API_TOKEN env) then
        (Inl (SystemExit 1),
         print (py ''Run: source ~/.zshrc'')
           (print (py ''Error: MEMOS_API_TOKEN environment variable not set'') w))
      else
        (case fetch_get_gmail_service env (print (py ''Connecting to Gmail...'') w) of
           (Inl e, w1) \<Rightarrow> (Inl e, w1)
         | (Inr service, w1) \<Rightarrow>
             (case get_unread_emails env service 10 (print (py ''Fetching unread emails...'') w1) of
                (Inl e, w2) \<Rightarrow> (Inl e, w2)
              | (Inr emails, w2) \<Rightarrow>
                  if emails = [] then (Inr (), print (py ''No unread emails.'') w2)
                  else
                    (case process_emails env service emails
                            (print (py (''Found '' @ str_nat (length emails) @ '' unread email(s)''))
                               w2) of
                       (Inl e, w3) \<Rightarrow> (Inl e, w3)
                     | (Inr u, w3) \<Rightarrow> (Inr (), print (py ''Done!'') w3)))))"

section \<open>send\_email.py\<close>

definition send_SCOPES :: "string list" where
  "send_SCOPES = [''https://www.googleapis.com/auth/gmail.send'']"

text \<open>
  \<^verbatim>\<open>get_gmail_service\<close> of \<^verbatim>\<open>send_email.py\<close>: it exits when there is no token
  file or when the token can not be refreshed, and it returns the service right after the
  refresh.
\<close>

definition send_get_gmail_service :: "env \<Rightarrow> world \<Rightarrow> (exn + service) \<times> world" where
  "send_get_gmail_service env w =
     (case token_file w of
        None \<Rightarrow>
          (Inl (SystemExit 1),
           print (py ''Run: python3 fetch_email.py --auth'')
             (print (py (''Error: Token file not found at '' @ TOKEN_FILE env)) w))
      | Some f \<Rightarrow>
          (case from_authorized_user_file f send_SCOPES of
             Inl e \<Rightarrow> (Inl e, w)
           | Inr creds \<Rightarrow>
               if \<not> valid creds then
                 (if expired creds \<and> truthy (refresh_token creds) then
                    (case refresh env creds w of
                       (Inl e, w1) \<Rightarrow> (Inl e, w1)
                     | (Inr c, w1) \<Rightarrow> (Inr (Service ''gmail'' ''v1'' c), w1))
                  else
                    (Inl (SystemExit 1),
                     print (py ''Error: Token expired or invalid. Run: python3 fetch_email.py --auth'')
                       w))
               else (Inr (Service ''gmail'' ''v1'' creds), w)))"

section \<open>create\_calendar\_event.py\<close>

definition calendar_SCOPES :: "string list" where
  "calendar_SCOPES =
     [''https://www.googleapis.com/auth/gmail.readonly'',
      ''https://www.googleapis.com/auth/gmail.modify'',
      ''https://www.googleapis.com/auth/gmail.send'',
      ''https://www.googleapis.com/auth/calendar'',
      ''https://www.googleapis.com/auth/calendar.events'']"

definition get_calendar_service :: "env \<Rightarrow> world \<Rightarrow> (exn + service) \<times> world" where
  "get_calendar_service env w =
     (case token_file w of
        None \<Rightarrow> save_and_build env ''calendar'' ''v3'' (run_flow env calendar_SCOPES w)
      | Some f \<Rightarrow>
          (case from_authorized_user_file f calendar_SCOPES of
             Inl e \<Rightarrow> (Inl e, w)
           | Inr creds \<Rightarrow>
               if \<not> valid creds then
                 save_and_build env ''calendar'' ''v3''
                   (if expired creds \<and> truthy (refresh_token creds) then refresh env creds w
                    else run_flow env calendar_SCOPES w)
               else (Inr (Service ''calendar'' ''v3'' creds), w)))"

subsection \<open>Dates and times\<close>

text \<open>
  A naive \<^verbatim>\<open>datetime.datetime\<close>; the scripts never produce microseconds or zone
  information.
\<close>

record datetime =
  dt_year :: nat
  dt_month :: nat
  dt_day :: nat
  dt_hour :: nat
  dt_minute :: nat
  dt_second :: nat

definition is_leap :: "nat \<Rightarrow> bool" where
  "is_leap y = (y mod 4 = 0 \<and> (y mod 100 \<noteq> 0 \<or> y mod 400 = 0))"

definition days_in_month :: "nat \<Rightarrow> nat \<Rightarrow> nat" where
  "days_in_month y m =
     (if m = 2 then (if is_leap y then 29 else 28)
      else if m = 4 \<or> m = 6 \<or> m = 9 \<or> m = 11 then 30
      else 31)"

text \<open>The constructor \<^verbatim>\<open>datetime(y, m, d, H, M, S)\<close>; \<^verbatim>\<open>None\<close> is its \<^verbatim>\<open>ValueError\<close>.\<close>

definition make_datetime :: "nat \<Rightarrow> nat \<Rightarrow> nat \<Rightarrow> nat \<Rightarrow> nat \<Rightarrow> nat \<Rightarrow> datetime option" where
  "make_datetime y m d H M S =
     (if 1 \<le> y \<and> y \<le> 9999 \<and> 1 \<le> m \<and> m \<le> 12 \<and> 1 \<le> d \<and> d \<le> days_in_month y m
         \<and> H \<le> 23 \<and> M \<le> 59 \<and> S \<le> 59
      then Some \<lparr>dt_year = y, dt_month = m, dt_day = d, dt_hour = H, dt_minute = M,
                 dt_second = S\<rparr>
      else None)"

text \<open>
  \<^verbatim>\<open>datetime.strptime\<close> as CPython computes it for the directives the script uses. The
  format is turned into a regular expression: \<^verbatim>\<open>%Y\<close> is four digits, the other
  directives are alternatives tried from left to right, a run of white space in the format
  matches any non-empty run of white space, and every other character matches itself,
  ignoring case. The first match that the backtracking search finds is taken; it must reach
  the end of the input.
\<close>

datatype directive = Year | Month | Day | Hour | Minute | Second | Whitespace | Literal char

definition is_space :: "char \<Rightarrow> bool" where
  "is_space c =
     (let n = (of_char c :: nat) in
      (9 \<le> n \<and> n \<le> 13) \<or> (28 \<le> n \<and> n \<le> 32) \<or> n = 133 \<or> n = 160)"

definition directive_of :: "char \<Rightarrow> directive option" where
  "directive_of c =
     (if c = CHR ''Y'' then Some Year
      else if c = CHR ''m'' then Some Month
      else if c = CHR ''d'' then Some Day
      else if c = CHR ''H'' then Some Hour
      else if c = CHR ''M'' then Some Minute
      else if c = CHR ''S'' then Some Second
      else None)"

function compile_format :: "string \<Rightarrow> directive list option" where
  "compile_format [] = Some []"
| "compile_format (c # cs) =
     (if c = CHR ''%'' then
        (case cs of
           [] \<Rightarrow> None
         | d # rest \<Rightarrow>
             (case directive_of d of
                None \<Rightarrow> None
              | Some dir \<Rightarrow> map_option ((#) dir) (compile_format rest)))
      else if is_space c then
        map_option ((#) Whitespace) (compile_format (dropWhile is_space cs))
      else map_option ((#) (Literal c)) (compile_format cs))"
  by pat_completeness auto
termination
  by (relation "measure length") (auto simp: le_imp_less_Suc length_dropWhile_le)

text \<open>A character class is an inclusive range of character codes.\<close>

definition digit :: "nat \<times> nat" where
  "digit = (48, 57)"

definition one_char :: "char \<Rightarrow> nat \<times> nat" where
  "one_char c = (of_char c, of_char c)"

definition from_to :: "char \<Rightarrow> char \<Rightarrow> nat \<times> nat" where
  "from_to a b = (of_char a, of_char b)"

fun alternatives :: "directive \<Rightarrow> (nat \<times> nat) list list" where
  "alternatives Year = [[digit, digit, digit, digit]]"
| "alternatives Month =
     [[one_char CHR ''1'', from_to CHR ''0'' CHR ''2''],
      [one_char CHR ''0'', from_to CHR ''1'' CHR ''9''],
      [from_to CHR ''1'' CHR ''9'']]"
| "alternatives Day =
     [[one_char CHR ''3'', from_to CHR ''0'' CHR ''1''],
      [from_to CHR ''1'' CHR ''2'', digit],
      [one_char CHR ''0'', from_to CHR ''1'' CHR ''9''],
      [from_to CHR ''1'' CHR ''9''],
      [one_char CHR '' '', from_to CHR ''1'' CHR ''9'']]"
| "alternatives Hour =
     [[one_char CHR ''2'', from_to CHR ''0'' CHR ''3''],
      [from_to CHR ''0'' CHR ''1'', digit],
      [digit]]"
| "alternatives Minute = [[from_to CHR ''0'' CHR ''5'', digit], [digit]]"
| "alternatives Second =
     [[one_char CHR ''6'', from_to CHR ''0'' CHR ''1''],
      [from_to CHR ''0'' CHR ''5'', digit],
      [digit]]"
| "alternatives Whitespace = []"
| "alternatives (Literal c) = []"

fun match_classes :: "(nat \<times> nat) list \<Rightarrow> string \<Rightarrow> (string \<times> string) option" where
  "match_classes [] s = Some ([], s)"
| "match_classes (cl # cls) [] = None"
| "match_classes (cl # cls) (c # s) =
     (if fst cl \<le> of_char c \<and> (of_char c :: nat) \<le> snd cl then
        (case match_classes cls s of
           None \<Rightarrow> None
         | Some (m, rest) \<Rightarrow> Some (c # m, rest))
      else None)"

text \<open>The code of a character with upper-case letters folded to lower case.\<close>

definition lower :: "char \<Rightarrow> nat" where
  "lower c = (let n = (of_char c :: nat) in if 65 \<le> n \<and> n \<le> 90 then n + 32 else n)"

text \<open>
  The ways in which one element of the pattern can match a prefix of the input, in the
  order in which the search tries them: the text matched and the rest of the input.
\<close>

fun directive_matches :: "directive \<Rightarrow> string \<Rightarrow> (string \<times> string) list" where
  "directive_matches Whitespace s =
     map (\<lambda>k. (take k s, drop k s)) (rev [1 ..< Suc (length (takeWhile is_space s))])"
| "directive_matches (Literal c) s =
     (case s of
        [] \<Rightarrow> []
      | x # rest \<Rightarrow> if lower x = lower c then [([x], rest)] else [])"
| "directive_matches d s = List.map_filter (\<lambda>alt. match_classes alt s) (alternatives d)"

fun run_directives ::
  "directive list \<Rightarrow> string \<Rightarrow> (directive \<times> string) list
     \<Rightarrow> ((directive \<times> string) list \<times> string) list" where
  "run_directives [] s groups = [(groups, s)]"
| "run_directives (d # ds) s groups =
     concat (map (\<lambda>(m, rest). run_directives ds rest (groups @ [(d, m)]))
               (directive_matches d s))"

text \<open>\<^verbatim>\<open>int(text)\<close> on a matched group: decimal digits, a leading blank is ignored.\<close>

definition int_of_group :: "string \<Rightarrow> nat" where
  "int_of_group m =
     foldl (\<lambda>a c. if 48 \<le> (of_char c :: nat) \<and> (of_char c :: nat) \<le> 57
                   then a * 10 + (of_char c - 48) else a) 0 m"

definition group_value :: "(directive \<times> string) list \<Rightarrow> directive \<Rightarrow> nat \<Rightarrow> nat" where
  "group_value groups d dflt =
     (case map_of groups d of None \<Rightarrow> dflt | Some m \<Rightarrow> int_of_group m)"

definition strptime :: "string \<Rightarrow> string \<Rightarrow> datetime option" where
  "strptime data_string format =
     (case compile_format format of
        None \<Rightarrow> None
      | Some ds \<Rightarrow>
          (case run_directives ds data_string [] of
             [] \<Rightarrow> None
           | (groups, rest) # others \<Rightarrow>
               if rest \<noteq> [] then None
               else make_datetime (group_value groups Year 1900) (group_value groups Month 1)
                      (group_value groups Day 1) (group_value groups Hour 0)
                      (group_value groups Minute 0) (group_value groups Second 0)))"

text \<open>Zero padding to a width, as \<^verbatim>\<open>%04d\<close> and \<^verbatim>\<open>%02d\<close>.\<close>

definition zero_pad :: "nat \<Rightarrow> nat \<Rightarrow> string" where
  "zero_pad width n = replicate (width - length (str_nat n)) CHR ''0'' @ str_nat n"

definition isoformat :: "datetime \<Rightarrow> string" where
  "isoformat dt =
     zero_pad 4 (dt_year dt) @ ''-'' @ zero_pad 2 (dt_month dt) @ ''-''
     @ zero_pad 2 (dt_day dt) @ ''T'' @ zero_pad 2 (dt_hour dt) @ '':''
     @ zero_pad 2 (dt_minute dt) @ '':'' @ zero_pad 2 (dt_second dt)"

text \<open>
  \<^verbatim>\<open>dt.strftime('%Y-%m-%d')\<close>. The year is written with four digits, which is what
  every platform does from the year 1000 on.
\<close>

definition strftime_Ymd :: "datetime \<Rightarrow> string" where
  "strftime_Ymd dt =
     zero_pad 4 (dt_year dt) @ ''-'' @ zero_pad 2 (dt_month dt) @ ''-''
     @ zero_pad 2 (dt_day dt)"

text \<open>
  \<^verbatim>\<open>dt + timedelta(days=1)\<close> and \<^verbatim>\<open>dt + timedelta(hours=1)\<close>; a result after the year
  9999 raises \<^verbatim>\<open>OverflowError\<close>.
\<close>

definition add_one_day :: "datetime \<Rightarrow> exn + datetime" where
  "add_one_day dt =
     (if dt_day dt < days_in_month (dt_year dt) (dt_month dt) then
        Inr (dt\<lparr>dt_day := dt_day dt + 1\<rparr>)
      else if dt_month dt < 12 then Inr (dt\<lparr>dt_month := dt_month dt + 1, dt_day := 1\<rparr>)
      else if dt_year dt < 9999 then
        Inr (dt\<lparr>dt_year := dt_year dt + 1, dt_month := 1, dt_day := 1\<rparr>)
      else Inl OverflowError)"

definition add_one_hour :: "datetime \<Rightarrow> exn + datetime" where
  "add_one_hour dt =
     (if dt_hour dt < 23 then Inr (dt\<lparr>dt_hour := dt_hour dt + 1\<rparr>)
      else add_one_day (dt\<lparr>dt_hour := 0\<rparr>))"

subsection \<open>Parsing the command line values\<close>

definition formats :: "string list" where
  "formats =
     [''%Y-%m-%d %H:%M'',
      ''%Y-%m-%d %H:%M:%S'',
      ''%Y-%m-%dT%H:%M'',
      ''%Y-%m-%dT%H:%M:%S'']"

text \<open>The loop \<^verbatim>\<open>for fmt in formats\<close> of \<^verbatim>\<open>parse_datetime\<close> and the raise after it.\<close>

fun try_formats :: "string \<Rightarrow> string list \<Rightarrow> exn + dict" where
  "try_formats dt_str [] = Inl ValueError"
| "try_formats dt_str (fmt # fmts) =
     (case strptime dt_str fmt of
        Some dt \<Rightarrow>
          Inr [(''dateTime'', JStr (isoformat dt)), (''timeZone'', JStr ''America/Phoenix'')]
      | None \<Rightarrow> try_formats dt_str fmts)"

definition parse_datetime :: "string \<Rightarrow> exn + dict" where
  "parse_datetime dt_str = try_formats dt_str formats"

definition parse_date :: "string \<Rightarrow> exn + dict" where
  "parse_date date_str =
     (case strptime date_str ''%Y-%m-%d'' of
        None \<Rightarrow> Inl ValueError
      | Some dt \<Rightarrow> Inr [(''date'', JStr (strftime_Ymd dt))])"

subsection \<open>Creating an event\<close>

text \<open>
  The dictionary that \<^verbatim>\<open>create_event\<close> builds before the remote call. The optional
  keys are added when the argument is truthy: a description or location that is neither
  \<^verbatim>\<open>None\<close> nor empty, a reminder that is neither \<^verbatim>\<open>None\<close> nor zero. The only
  caller, \<^verbatim>\<open>main\<close>, passes every argument, so the default values of the parameters
  are never used.
\<close>

definition event_body ::
  "string \<Rightarrow> dict \<Rightarrow> dict \<Rightarrow> string option \<Rightarrow> string option \<Rightarrow> int option \<Rightarrow> dict" where
  "event_body title start end description location reminder_minutes =
     [(''summary'', JStr title), (''start'', JObj start), (''end'', JObj end)]
     @ (case description of
          None \<Rightarrow> []
        | Some d \<Rightarrow> if d \<noteq> [] then [(''description'', JStr d)] else [])
     @ (case location of
          None \<Rightarrow> []
        | Some l \<Rightarrow> if l \<noteq> [] then [(''location'', JStr l)] else [])
     @ (case reminder_minutes of
          None \<Rightarrow> []
        | Some n \<Rightarrow>
            if n \<noteq> 0 then
              [(''reminders'',
                JObj [(''useDefault'', JBool False),
                      (''overrides'',
                       JList [JObj [(''method'', JStr ''popup''), (''minutes'', JInt n)]])])]
            else [])"

definition create_event ::
  "env \<Rightarrow> service \<Rightarrow> string \<Rightarrow> dict \<Rightarrow> dict \<Rightarrow> string option \<Rightarrow> string option \<Rightarrow> int option
     \<Rightarrow> world \<Rightarrow> (exn + created_event) \<times> world" where
  "create_event env service title start end description location reminder_minutes w =
     (let event = JObj (event_body title start end description location reminder_minutes) in
      case insert_reply env (trace w) event of
        Inl e \<Rightarrow> (Inl e, emit (InsertCall event) w)
      | Inr created_event \<Rightarrow> (Inr created_event, emit (InsertCall event) w))"

subsection \<open>The command line of create\_calendar\_event.py\<close>

text \<open>
  The options as given on the command line; \<^verbatim>\<open>None\<close> is an option that was not given.
  \<^verbatim>\<open>--reminder\<close> has passed \<^verbatim>\<open>type=int\<close>.
\<close>

record cli =
  cli_auth :: bool
  cli_title :: "string option"
  cli_start :: "string option"
  cli_end :: "string option"
  cli_date :: "string option"
  cli_description :: "string option"
  cli_location :: "string option"
  cli_reminder :: "int option"
  cli_timezone :: "string option"

text \<open>The two options with a default: \<^verbatim>\<open>default=30\<close> and \<^verbatim>\<open>default='America/Phoenix'\<close>.\<close>

definition args_reminder :: "cli \<Rightarrow> int" where
  "args_reminder args = (case cli_reminder args of None \<Rightarrow> 30 | Some n \<Rightarrow> n)"

definition args_timezone :: "cli \<Rightarrow> string" where
  "args_timezone args =
     (case cli_timezone args of None \<Rightarrow> ''America/Phoenix'' | Some tz \<Rightarrow> tz)"

text \<open>An optional string that Python takes as true: its text, if it is not empty.\<close>

definition given :: "string option \<Rightarrow> string option" where
  "given x = (case x of None \<Rightarrow> None | Some s \<Rightarrow> if s = [] then None else Some s)"

text \<open>\<^verbatim>\<open>s.replace('T', ' ').split('.')[0]\<close>.\<close>

definition normalise_start :: "string \<Rightarrow> string" where
  "normalise_start s =
     takeWhile (\<lambda>c. c \<noteq> CHR ''.'') (map (\<lambda>c. if c = CHR ''T'' then CHR '' '' else c) s)"

text \<open>
  The block \<^verbatim>\<open># Build start/end\<close> of \<^verbatim>\<open>main\<close>: the all-day branch when
  \<^verbatim>\<open>--date\<close> is given, the timed branch otherwise.
\<close>

definition all_day :: "string \<Rightarrow> exn + dict \<times> dict" where
  "all_day date_str =
     (case parse_date date_str of
        Inl e \<Rightarrow> Inl e
      | Inr start \<Rightarrow>
          (case strptime date_str ''%Y-%m-%d'' of
             None \<Rightarrow> Inl ValueError
           | Some dt \<Rightarrow>
               (case add_one_day dt of
                  Inl e \<Rightarrow> Inl e
                | Inr end_dt \<Rightarrow> Inr (start, [(''date'', JStr (strftime_Ymd end_dt))]))))"

definition timed :: "string \<Rightarrow> string option \<Rightarrow> string \<Rightarrow> exn + dict \<times> dict" where
  "timed start_str end_str timezone =
     (case parse_datetime start_str of
        Inl e \<Rightarrow> Inl e
      | Inr start0 \<Rightarrow>
          (let start = AList.update ''timeZone'' (JStr timezone) start0 in
           case given end_str of
             Some e_str \<Rightarrow>
               (case parse_datetime e_str of
                  Inl e \<Rightarrow> Inl e
                | Inr end0 \<Rightarrow> Inr (start, AList.update ''timeZone'' (JStr timezone) end0))
           | None \<Rightarrow>
               (case strptime (normalise_start start_str) ''%Y-%m-%d %H:%M'' of
                  None \<Rightarrow> Inl ValueError
                | Some start_dt \<Rightarrow>
                    (case add_one_hour start_dt of
                       Inl e \<Rightarrow> Inl e
                     | Inr end_dt \<Rightarrow>
                         Inr (start,
                              AList.update ''timeZone'' (JStr timezone)
                                [(''dateTime'', JStr (isoformat end_dt)),
                                 (''timeZone'', JStr timezone)])))))"

text \<open>
  The mark at the start of the line that reports the created event. In the source file it is
  the three characters with the code points E2, 153 and 201C.
\<close>

definition CREATED_MARK :: pystr where
  "CREATED_MARK = [0xE2, 0x153, 0x201C]"

text \<open>
  \<^verbatim>\<open>main\<close> of \<^verbatim>\<open>create_calendar_event.py\<close>. \<^verbatim>\<open>parser.error\<close> exits with status 2
  and writes to the error stream only.
\<close>

definition calendar_main :: "env \<Rightarrow> cli \<Rightarrow> world \<Rightarrow> (exn + unit) \<times> world" where
  "calendar_main env args w =
     (if cli_auth args then
        (case get_calendar_service env (print (py ''Running OAuth flow...'') w) of
           (Inl e, w1) \<Rightarrow> (Inl e, w1)
         | (Inr service, w1) \<Rightarrow> (Inr (), print (py ''Authentication successful!'') w1))
      else
        (case given (cli_title args) of
           None \<Rightarrow> (Inl (SystemExit 2), w)
         | Some title \<Rightarrow>
             if given (cli_date args) = None \<and> given (cli_start args) = None then
               (Inl (SystemExit 2), w)
             else
               (case get_calendar_service env (print (py ''Connecting to Google Calendar...'') w) of
                  (Inl e, w1) \<Rightarrow> (Inl e, w1)
                | (Inr service, w1) \<Rightarrow>
                    (case (case given (cli_date args) of
                             Some date_str \<Rightarrow> all_day date_str
                           | None \<Rightarrow>
                               timed (case cli_start args of None \<Rightarrow> [] | Some s \<Rightarrow> s)
                                 (cli_end args) (args_timezone args)) of
                       Inl e \<Rightarrow> (Inl e, w1)
                     | Inr (start, end) \<Rightarrow>
                         (case create_event env service title start end (cli_description args)
                                 (cli_location args) (Some (args_reminder args)) w1 of
                            (Inl e, w2) \<Rightarrow> (Inl e, w2)
                          | (Inr event, w2) \<Rightarrow>
                              (case ev_summary event of
                                 None \<Rightarrow> (Inl (KeyError ''summary''), w2)
                               | Some summary \<Rightarrow>
                                   (Inr (),
                                    print (py (''  Link: ''
                                                 @ (case ev_htmlLink event of
                                                      None \<Rightarrow> ''N/A''
                                                    | Some link \<Rightarrow> link)))
                                      (print (CREATED_MARK
                                                @ py ('' Created event: '' @ summary))
                                         w2))))))))"

section \<open>Observations used by the properties\<close>



text \<open>The events that a call added to the trace.\<close>

definition new_events :: "world \<Rightarrow> world \<Rightarrow> event list" where
  "new_events w w' = drop (length (trace w)) (trace w')"

text \<open>The scope lists of the interactive grants in a trace, in order.\<close>

fun requested_scopes :: "event list \<Rightarrow> string list list" where
  "requested_scopes [] = []"
| "requested_scopes (RunFlow SCOPES # evs) = SCOPES # requested_scopes evs"
| "requested_scopes (ev # evs) = requested_scopes evs"

text \<open>The messages that a listing fetched, with their ids, in order.\<close>

fun fetched :: "event list \<Rightarrow> (pystr \<times> payload) list" where
  "fetched [] = []"
| "fetched (GetCall msg_id (Inr pl) # evs) = (msg_id, pl) # fetched evs"
| "fetched (ev # evs) = fetched evs"

text \<open>
  The body-extraction policy in the words of the specification: the plain-text part of a
  message with parts, the top-level body of a message without parts. The result is the
  encoded data that is chosen, if any.
\<close>

definition chosen_data :: "payload \<Rightarrow> pystr option" where
  "chosen_data pl =
     (case payload_parts pl of
        Some ps \<Rightarrow>
          (case find (\<lambda>p. part_mimeType p = py ''text/plain'') ps of
             None \<Rightarrow> None
           | Some p \<Rightarrow> Some (case body_data (part_body p) of None \<Rightarrow> [] | Some d \<Rightarrow> d))
      | None \<Rightarrow>
          (case payload_body pl of
             None \<Rightarrow> None
           | Some b \<Rightarrow> body_data b))"

text \<open>
  The body data chosen for a message can be decoded: it is valid base64, or there is none.
\<close>

definition decodable :: "payload \<Rightarrow> bool" where
  "decodable pl =
     (case chosen_data pl of
        None \<Rightarrow> True
      | Some d \<Rightarrow> (case urlsafe_b64decode d of Inl e \<Rightarrow> False | Inr bs \<Rightarrow> True))"

text \<open>
  Every fetch of a run over the listed ids succeeds and returns a message whose chosen
  body data can be decoded. The second argument is the trace at the start of the run; each
  fetch adds its event to it.
\<close>

fun fetches_ok :: "env \<Rightarrow> pystr list \<Rightarrow> event list \<Rightarrow> bool" where
  "fetches_ok env [] tr = True"
| "fetches_ok env (msg_id # rest) tr =
     (case get_reply env tr msg_id of
        Inl e \<Rightarrow> False
      | Inr pl \<Rightarrow> decodable pl \<and> fetches_ok env rest (tr @ [GetCall msg_id (Inr pl)]))"

text \<open>
  The UTF-8 encoding of a character and of a string, as the standard defines it, and the
  characters that have one: the code points up to 10FFFF that are not surrogates. They
  serve to state what the decoder of the scripts returns.
\<close>

definition scalar :: "nat \<Rightarrow> bool" where
  "scalar c = (c < 0x110000 \<and> \<not> (0xD800 \<le> c \<and> c \<le> 0xDFFF))"

definition utf8_encode_char :: "nat \<Rightarrow> nat list" where
  "utf8_encode_char c =
     (if c < 0x80 then [c]
      else if c < 0x800 then [0xC0 + c div 64, 0x80 + c mod 64]
      else if c < 0x10000 then [0xE0 + c div 4096, 0x80 + c div 64 mod 64, 0x80 + c mod 64]
      else [0xF0 + c div 262144, 0x80 + c div 4096 mod 64, 0x80 + c div 64 mod 64,
            0x80 + c mod 64])"

definition utf8_encode :: "pystr \<Rightarrow> nat list" where
  "utf8_encode cs = concat (map utf8_encode_char cs)"

text \<open>The names of the headers of a message.\<close>

definition header_names :: "payload \<Rightarrow> pystr set" where
  "header_names pl = fst ` set (payload_headers pl)"

text \<open>The event bodies sent to the calendar service in a trace, in order.\<close>

fun inserted :: "event list \<Rightarrow> json list" where
  "inserted [] = []"
| "inserted (InsertCall body # evs) = body # inserted evs"
| "inserted (ev # evs) = inserted evs"

text \<open>The value under the key \<^verbatim>\<open>reminders\<close> of an event body, if the key is there.\<close>

fun reminders_of :: "json \<Rightarrow> json option" where
  "reminders_of (JObj kvs) = map_of kvs ''reminders''"
| "reminders_of j = None"

subsection \<open>A concrete environment for the examples\<close>

definition demo_creds :: credentials where
  "demo_creds =
     \<lparr>token = Some ''t0'', refresh_token = Some ''r0'', expired = False,
      scopes = fetch_SCOPES\<rparr>"

definition demo_env :: env where
  "demo_env =
     \<lparr>MEMOS_API_TOKEN = Some ''secret'',
      TOKEN_FILE = ''credentials/token.json'',
      CREDENTIALS_FILE = ''credentials/gmail_credentials.json'',
      credentials_file_exists = True,
      disk_writable = True,
      refresh_reply = (\<lambda>tr creds. Inr ''t1''),
      flow_reply = (\<lambda>tr SCOPES.
        Inr \<lparr>token = Some ''t2'', refresh_token = Some ''r2'', expired = False,
             scopes = SCOPES\<rparr>),
      list_reply = (\<lambda>tr n. Inr (Some [py ''m1'', py ''m2'', py ''m3''])),
      get_reply = (\<lambda>tr msg_id.
        Inr \<lparr>payload_headers = [(py ''Subject'', msg_id)], payload_parts = None,
             payload_body = None\<rparr>),
      modify_reply = (\<lambda>tr msg_id. Inr ()),
      post_reply = (\<lambda>tr content.
        Inr \<lparr>status_code = (if length tr = 2 then 500 else 200),
             resp_text = py ''reply''\<rparr>),
      insert_reply = (\<lambda>tr body. Inr \<lparr>ev_summary = Some ''s'', ev_htmlLink = None\<rparr>)\<rparr>"


definition demo_world :: world where
  "demo_world = \<lparr>token_file = None, trace = [], stdout = []\<rparr>"

text \<open>A token file whose credential has expired and can be refreshed.\<close>

definition stale_creds :: credentials where
  "stale_creds =
     \<lparr>token = Some ''t0'', refresh_token = Some ''r0'', expired = True,
      scopes = fetch_SCOPES\<rparr>"

definition stale_world :: world where
  "stale_world = \<lparr>token_file = Some (Token stale_creds), trace = [], stdout = []\<rparr>"

text \<open>A token file written by \<^verbatim>\<open>fetch_email.py\<close>: valid, with the mail scopes only.\<close>

definition mail_only_world :: world where
  "mail_only_world = \<lparr>token_file = Some (Token demo_creds), trace = [], stdout = []\<rparr>"

text \<open>A token endpoint that rejects every refresh.\<close>

definition rejecting_env :: env where
  "rejecting_env = demo_env\<lparr>refresh_reply := (\<lambda>tr creds. Inl RefreshError)\<rparr>"

text \<open>
  A mailbox with two unread messages. The first has an html part and a plain-text part and
  no subject, sender or date header; the text of its plain-text part is \<^verbatim>\<open>hello\<close>.
  The second has no parts; its body data are the bytes 68, FF, C3, A9 and 69, of which FF
  is not valid UTF-8 and C3 A9 is one character.
\<close>

definition multipart_payload :: payload where
  "multipart_payload =
     \<lparr>payload_headers = [(py ''To'', py ''me'')],
      payload_parts = Some
        [\<lparr>part_mimeType = py ''text/html'',
          part_body = \<lparr>body_data = Some (py ''PGI-'')\<rparr>\<rparr>,
         \<lparr>part_mimeType = py ''text/plain'',
          part_body = \<lparr>body_data = Some (py ''aGVsbG8='')\<rparr>\<rparr>],
      payload_body = Some \<lparr>body_data = None\<rparr>\<rparr>"

definition plain_payload :: payload where
  "plain_payload =
     \<lparr>payload_headers =
        [(py ''Subject'', py ''hi''), (py ''From'', py ''bob''), (py ''Date'', py ''today'')],
      payload_parts = None,
      payload_body = Some \<lparr>body_data = Some (py ''aP_DqWk='')\<rparr>\<rparr>"

definition mail_env :: env where
  "mail_env = demo_env
     \<lparr>list_reply := (\<lambda>tr n. Inr (Some [py ''m1'', py ''m2''])),
      get_reply := (\<lambda>tr msg_id.
        if msg_id = py ''m1'' then Inr multipart_payload else Inr plain_payload)\<rparr>"

text \<open>A mailbox whose only message carries body data that is not valid base64.\<close>

definition bad_b64_env :: env where
  "bad_b64_env = demo_env
     \<lparr>list_reply := (\<lambda>tr n. Inr (Some [py ''m1''])),
      get_reply := (\<lambda>tr msg_id.
        Inr \<lparr>payload_headers = [(py ''Subject'', py ''hello'')], payload_parts = None,
             payload_body = Some \<lparr>body_data = Some (py ''abc'')\<rparr>\<rparr>)\<rparr>"

text \<open>A note service that answers every creation with status 201.\<close>

definition created_201_env :: env where
  "created_201_env = demo_env
     \<lparr>post_reply := (\<lambda>tr content.
        Inr \<lparr>status_code = 201, resp_text = py ''Created''\<rparr>)\<rparr>"

text \<open>
  A command line with a title and a start, and neither \<^verbatim>\<open>--end\<close> nor
  \<^verbatim>\<open>--reminder\<close>; and the same with seconds in the start.
\<close>

definition unset_cli :: cli where
  "unset_cli =
     \<lparr>cli_auth = False, cli_title = Some ''Meeting'', cli_start = Some ''2026-02-10 14:00'',
      cli_end = None, cli_date = None, cli_description = None, cli_location = None,
      cli_reminder = None, cli_timezone = None\<rparr>"

definition seconds_cli :: cli where
  "seconds_cli = unset_cli\<lparr>cli_start := Some ''2026-02-10 14:00:30''\<rparr>"

section \<open>Properties of the scripts\<close>

subsection \<open>Traces\<close>

lemma trace_print [simp]: "trace (print s w) = trace w"
  by (simp add: print_def)

lemma trace_emit [simp]: "trace (emit ev w) = trace w @ [ev]"
  by (simp add: emit_def)

lemma token_file_print [simp]: "token_file (print s w) = token_file w"
  by (simp add: print_def)

lemma token_file_emit [simp]: "token_file (emit ev w) = token_file w"
  by (simp add: emit_def)

lemma stdout_emit [simp]: "stdout (emit ev w) = stdout w"
  by (simp add: emit_def)

lemma stdout_print [simp]: "stdout (print s w) = stdout w @ [s]"
  by (simp add: print_def)

subsection \<open>The sync loop marks an item as read exactly after its note was created\<close>





subsection \<open>How main reaches the sync loop\<close>

text \<open>
  Without the sink token the sync mode of \<^verbatim>\<open>main\<close> exits before any remote call; with
  it, \<^verbatim>\<open>main\<close> runs the loop on exactly the items that the listing returned.
\<close>

lemma fetch_main_without_token:
  assumes "''--auth'' \<notin> set argv" and "\<not> truthy (MEMOS_API_TOKEN env)"
  shows "fst (fetch_main env argv w) = Inl (SystemExit 1)
       \<and> trace (snd (fetch_main env argv w)) = trace w"
  using assms by (simp add: fetch_main_def)

lemma fetch_main_runs_loop:
  assumes "''--auth'' \<notin> set argv" and "truthy (MEMOS_API_TOKEN env)"
    and "fetch_get_gmail_service env (print (py ''Connecting to Gmail...'') w) = (Inr service, w1)"
    and "get_unread_emails env service 10 (print (py ''Fetching unread emails...'') w1)
         = (Inr emails, w2)"
    and "emails \<noteq> []"
  shows "fetch_main env argv w =
           (case process_emails env service emails
                   (print (py (''Found '' @ str_nat (length emails) @ '' unread email(s)'')) w2) of
              (Inl e, w3) \<Rightarrow> (Inl e, w3)
            | (Inr u, w3) \<Rightarrow> (Inr (), print (py ''Done!'') w3))"
  using assms by (simp add: fetch_main_def)

subsection \<open>Refreshing an expired credential\<close>

lemma new_events_same [simp]: "new_events w w = []"
  by (simp add: new_events_def)

lemma new_events_print [simp]: "new_events w (print s w') = new_events w w'"
  by (simp add: new_events_def)

lemma new_events_token_file [simp]: "new_events w (w'\<lparr>token_file := f\<rparr>) = new_events w w'"
  by (simp add: new_events_def)

lemma new_events_emit [simp]: "new_events w (emit ev w) = [ev]"
  by (simp add: new_events_def)

lemma new_events_emit2 [simp]: "new_events w (emit ev2 (emit ev w)) = [ev, ev2]"
  by (simp add: new_events_def)

text \<open>
  A successful refresh followed by the shared tail of \<^verbatim>\<open>fetch_email.py\<close> and
  \<^verbatim>\<open>create_calendar_event.py\<close>: one refresh call, then the token file is written, then
  the service is returned.
\<close>

lemma refresh_then_save:
  assumes "refresh_reply env (trace w) creds = Inr t" and "disk_writable env"
  shows "save_and_build env api version (refresh env creds w)
         = (Inr (Service api version (creds\<lparr>token := Some t, expired := False\<rparr>)),
            print (py (''Token saved to '' @ TOKEN_FILE env))
              ((emit (WriteToken (creds\<lparr>token := Some t, expired := False\<rparr>))
                  (emit RefreshCall w))
               \<lparr>token_file := Some (Token (creds\<lparr>token := Some t, expired := False\<rparr>))\<rparr>))"
  using assms by (simp add: save_and_build_def refresh_def save_token_def)

lemma fetch_refresh_persists:
  assumes "token_file w = Some (Token c)" and "expired c" and "truthy (refresh_token c)"
    and "refresh_reply env (trace w) (c\<lparr>scopes := fetch_SCOPES\<rparr>) = Inr t"
    and "disk_writable env"
    and "fetch_get_gmail_service env w = (r, w')"
  shows "r = Inr (Service ''gmail'' ''v1''
                (c\<lparr>scopes := fetch_SCOPES, token := Some t, expired := False\<rparr>))
       \<and> trace w' = trace w @ [RefreshCall,
            WriteToken (c\<lparr>scopes := fetch_SCOPES, token := Some t, expired := False\<rparr>)]
       \<and> token_file w'
          = Some (Token (c\<lparr>scopes := fetch_SCOPES, token := Some t, expired := False\<rparr>))"
  using assms refresh_then_save[OF assms(4,5)]
  by (auto simp: fetch_get_gmail_service_def valid_def)

lemma calendar_refresh_persists:
  assumes "token_file w = Some (Token c)" and "expired c" and "truthy (refresh_token c)"
    and "refresh_reply env (trace w) (c\<lparr>scopes := calendar_SCOPES\<rparr>) = Inr t"
    and "disk_writable env"
    and "get_calendar_service env w = (r, w')"
  shows "r = Inr (Service ''calendar'' ''v3''
                (c\<lparr>scopes := calendar_SCOPES, token := Some t, expired := False\<rparr>))
       \<and> trace w' = trace w @ [RefreshCall,
            WriteToken (c\<lparr>scopes := calendar_SCOPES, token := Some t, expired := False\<rparr>)]
       \<and> token_file w'
          = Some (Token (c\<lparr>scopes := calendar_SCOPES, token := Some t, expired := False\<rparr>))"
  using assms refresh_then_save[OF assms(4,5)]
  by (auto simp: get_calendar_service_def valid_def)

text \<open>
  \<^verbatim>\<open>send_email.py\<close> refreshes as well, makes one refresh call, and returns the service
  with the world changed by that call only: the token file is left as it was.
\<close>

lemma send_refresh_returns_unsaved:
  assumes "token_file w = Some (Token c)" and "expired c" and "truthy (refresh_token c)"
    and "refresh_reply env (trace w) (c\<lparr>scopes := send_SCOPES\<rparr>) = Inr t"
  shows "send_get_gmail_service env w
         = (Inr (Service ''gmail'' ''v1''
                  (c\<lparr>scopes := send_SCOPES, token := Some t, expired := False\<rparr>)),
            emit RefreshCall w)"
  using assms by (simp add: send_get_gmail_service_def valid_def refresh_def)

text \<open>
  Claim C2, at the input where the code departs from it. The token file holds an expired
  credential with a refresh token and the refresh succeeds. \<^verbatim>\<open>get_gmail_service\<close> of
  \<^verbatim>\<open>send_email.py\<close> makes its one refresh call and returns the refreshed credential, yet
  the token file still holds the expired credential: nothing was persisted.
\<close>

theorem send_refresh_not_persisted:
  "fst (send_get_gmail_service demo_env stale_world)
     = Inr (Service ''gmail'' ''v1''
         \<lparr>token = Some ''t1'', refresh_token = Some ''r0'', expired = False,
          scopes = send_SCOPES\<rparr>)
   \<and> trace (snd (send_get_gmail_service demo_env stale_world)) = [RefreshCall]
   \<and> token_file (snd (send_get_gmail_service demo_env stale_world)) = Some (Token stale_creds)
   \<and> expired stale_creds \<and> truthy (refresh_token stale_creds)"
  by (simp add: send_get_gmail_service_def stale_world_def stale_creds_def demo_env_def
      valid_def refresh_def)

subsection \<open>The scopes of the interactive grant\<close>

lemma run_flow_events:
  "new_events w (snd (save_and_build env api version (run_flow env S w)))
     \<in> {[], [RunFlow S], [RunFlow S, WriteToken (projr (flow_reply env (trace w) S))]}"
  by (auto simp: save_and_build_def run_flow_def save_token_def split: sum.splits)

lemma run_flow_requested:
  "requested_scopes (new_events w (snd (save_and_build env api version (run_flow env S w))))
     \<in> {[], [S]}"
  using run_flow_events[of w env api version S] by auto

lemma refresh_requested:
  "requested_scopes (new_events w (snd (save_and_build env api version (refresh env c w)))) = []"
  by (auto simp: save_and_build_def refresh_def save_token_def split: sum.splits)

text \<open>
  Claim C3 as stated fails: with no token file, \<^verbatim>\<open>get_gmail_service\<close> of
  \<^verbatim>\<open>fetch_email.py\<close> drives the grant with the three mail scopes, and the calendar scope
  is not among them.
\<close>

theorem fetch_grant_omits_calendar_scope:
  "requested_scopes (new_events demo_world (snd (fetch_get_gmail_service demo_env demo_world)))
     = [fetch_SCOPES]
   \<and> ''https://www.googleapis.com/auth/calendar'' \<notin> set fetch_SCOPES"
  by (simp add: fetch_get_gmail_service_def demo_world_def demo_env_def run_flow_def
      save_and_build_def save_token_def new_events_def emit_def print_def fetch_SCOPES_def)

text \<open>
  Claim C3, amended. A call of an entry point drives the interactive grant at most once, and
  the grant requests the scope list of that entry point: \<^verbatim>\<open>create_calendar_event.py\<close>
  requests the union of the scopes of all three scripts and the two calendar scopes,
  \<^verbatim>\<open>fetch_email.py\<close> requests the three mail scopes only, and \<^verbatim>\<open>send_email.py\<close> never
  drives the grant.
\<close>

theorem grant_requests_scopes_of_entry_point:
  "requested_scopes (new_events w (snd (get_calendar_service env w)))
     \<in> {[], [calendar_SCOPES]}
   \<and> requested_scopes (new_events w (snd (fetch_get_gmail_service env w)))
       \<in> {[], [fetch_SCOPES]}
   \<and> requested_scopes (new_events w (snd (send_get_gmail_service env w))) = []
   \<and> set calendar_SCOPES
       = set fetch_SCOPES \<union> set send_SCOPES
         \<union> {''https://www.googleapis.com/auth/calendar'',
             ''https://www.googleapis.com/auth/calendar.events''}"
proof (intro conjI)
  show "requested_scopes (new_events w (snd (get_calendar_service env w)))
          \<in> {[], [calendar_SCOPES]}"
    using run_flow_requested[of w env "''calendar''" "''v3''" calendar_SCOPES]
      refresh_requested[of w env "''calendar''" "''v3''"]
    by (auto simp: get_calendar_service_def split: option.splits sum.splits)
  show "requested_scopes (new_events w (snd (fetch_get_gmail_service env w)))
          \<in> {[], [fetch_SCOPES]}"
    using run_flow_requested[of w env "''gmail''" "''v1''" fetch_SCOPES]
      refresh_requested[of w env "''gmail''" "''v1''"]
    by (auto simp: fetch_get_gmail_service_def split: option.splits sum.splits)
  show "requested_scopes (new_events w (snd (send_get_gmail_service env w))) = []"
    by (auto simp: send_get_gmail_service_def refresh_def split: option.splits sum.splits)
  show "set calendar_SCOPES
       = set fetch_SCOPES \<union> set send_SCOPES
         \<union> {''https://www.googleapis.com/auth/calendar'',
             ''https://www.googleapis.com/auth/calendar.events''}"
    by (auto simp: calendar_SCOPES_def fetch_SCOPES_def send_SCOPES_def)
qed

text \<open>An instance where the calendar entry point does drive the grant.\<close>

theorem grant_requests_scopes_of_entry_point_witness:
  "requested_scopes (new_events demo_world (snd (get_calendar_service demo_env demo_world)))
     = [calendar_SCOPES]"
proof -
  have "requested_scopes
          (new_events demo_world (snd (get_calendar_service demo_env demo_world))) \<noteq> []"
    by (simp add: get_calendar_service_def demo_world_def demo_env_def run_flow_def
      save_and_build_def save_token_def new_events_def emit_def print_def)
  with grant_requests_scopes_of_entry_point[of demo_world demo_env] show ?thesis by simp
qed

subsection \<open>A refresh that the token endpoint rejects\<close>

text \<open>
  Claim C4 as stated fails: with an expired, refreshable credential in the token file and
  a token endpoint that rejects the refresh, both \<^verbatim>\<open>get_gmail_service\<close> of
  \<^verbatim>\<open>fetch_email.py\<close> and \<^verbatim>\<open>get_calendar_service\<close> end with the exception of the
  refresh; no grant is driven, nothing is printed and the process does not exit in an
  orderly way.
\<close>

theorem refresh_failure_is_unhandled:
  "fetch_get_gmail_service rejecting_env stale_world
     = (Inl RefreshError, stale_world\<lparr>trace := [RefreshCall]\<rparr>)
   \<and> get_calendar_service rejecting_env stale_world
     = (Inl RefreshError, stale_world\<lparr>trace := [RefreshCall]\<rparr>)"
  by (simp add: fetch_get_gmail_service_def get_calendar_service_def rejecting_env_def
      stale_world_def stale_creds_def demo_env_def valid_def refresh_def save_and_build_def
      emit_def)

text \<open>
  Claim C4, amended. When the token file holds an expired credential with a refresh
  token and the refresh call fails, each of the three entry points makes that one refresh
  call and then raises the exception of the refresh, uncaught: the interactive grant is
  not started, nothing is printed and the token file is not written.
\<close>

theorem refresh_failure_propagates:
  assumes "token_file w = Some (Token c)" and "expired c" and "truthy (refresh_token c)"
    and "\<forall>S. refresh_reply env (trace w) (c\<lparr>scopes := S\<rparr>) = Inl e"
  shows "fetch_get_gmail_service env w = (Inl e, emit RefreshCall w)
       \<and> get_calendar_service env w = (Inl e, emit RefreshCall w)
       \<and> send_get_gmail_service env w = (Inl e, emit RefreshCall w)"
  using assms
  by (simp add: fetch_get_gmail_service_def get_calendar_service_def
      send_get_gmail_service_def valid_def refresh_def save_and_build_def)

text \<open>An instance: the expired credential and the token endpoint that rejects.\<close>

theorem refresh_failure_propagates_witness:
  "token_file stale_world = Some (Token stale_creds) \<and> expired stale_creds
   \<and> truthy (refresh_token stale_creds)
   \<and> fetch_get_gmail_service rejecting_env stale_world
       = (Inl RefreshError, emit RefreshCall stale_world)
   \<and> get_calendar_service rejecting_env stale_world
       = (Inl RefreshError, emit RefreshCall stale_world)
   \<and> send_get_gmail_service rejecting_env stale_world
       = (Inl RefreshError, emit RefreshCall stale_world)"
proof -
  have h1: "token_file stale_world = Some (Token stale_creds)" by (simp add: stale_world_def)
  have h2: "expired stale_creds" by (simp add: stale_creds_def)
  have h3: "truthy (refresh_token stale_creds)" by (simp add: stale_creds_def)
  have h4: "\<forall>S. refresh_reply rejecting_env (trace stale_world) (stale_creds\<lparr>scopes := S\<rparr>)
               = Inl RefreshError"
    by (simp add: rejecting_env_def)
  from refresh_failure_propagates[OF h1 h2 h3 h4] h1 h2 h3 show ?thesis by simp
qed

subsection \<open>A cached credential with too few scopes\<close>

text \<open>
  The scope list stored in the token file is replaced on loading and never compared with
  the scopes of the entry point: a valid stored credential is returned as it is, with no
  remote call and no grant.
\<close>

lemma stored_scopes_never_read:
  assumes "token_file w = Some (Token c)" and "valid c"
  shows "get_calendar_service env w
         = (Inr (Service ''calendar'' ''v3'' (c\<lparr>scopes := calendar_SCOPES\<rparr>)), w)"
  using assms by (simp add: get_calendar_service_def valid_def)

text \<open>
  Claim C5, at the input where the code departs from it. The token file holds a valid
  credential that was granted the three mail scopes only. \<^verbatim>\<open>get_calendar_service\<close>
  returns a calendar service built on it and leaves the world unchanged: no grant is
  driven, although the calendar scope was never granted.
\<close>

theorem calendar_service_ignores_granted_scopes:
  "get_calendar_service demo_env mail_only_world
     = (Inr (Service ''calendar'' ''v3'' (demo_creds\<lparr>scopes := calendar_SCOPES\<rparr>)),
        mail_only_world)
   \<and> token_file mail_only_world = Some (Token demo_creds)
   \<and> scopes demo_creds = fetch_SCOPES
   \<and> ''https://www.googleapis.com/auth/calendar'' \<in> set calendar_SCOPES
   \<and> ''https://www.googleapis.com/auth/calendar'' \<notin> set fetch_SCOPES"
  by (simp add: get_calendar_service_def mail_only_world_def demo_creds_def valid_def
      calendar_SCOPES_def fetch_SCOPES_def)

subsection \<open>The outcome of a note-creation call\<close>

text \<open>
  Claim C6 as stated fails: a reply with status 201, which is in the 200 class, makes
  \<^verbatim>\<open>create_memo\<close> print the error line and return \<^verbatim>\<open>False\<close>.
\<close>

theorem create_memo_rejects_201:
  "create_memo created_201_env (py ''note'') demo_world
     = (Inr False,
        \<lparr>token_file = None,
         trace = [PostCall (py ''note'')
                    (Inr \<lparr>status_code = 201, resp_text = py ''Created''\<rparr>)],
         stdout = [py ''Error creating memo: 201 Created'']\<rparr>)"
  by (simp add: create_memo_def created_201_env_def demo_env_def demo_world_def emit_def
      print_def str_int_def digit_char_def py_def)

text \<open>
  Claim C6, amended. With the sink token configured, a note-creation call that receives an
  HTTP response succeeds if and only if the status is exactly 200. For every other status
  \<^verbatim>\<open>create_memo\<close> returns \<^verbatim>\<open>False\<close> after printing one line that holds the remote
  status code and the response body; the returned value itself carries neither.
\<close>

theorem create_memo_success_iff_200:
  assumes "truthy (MEMOS_API_TOKEN env)"
    and "post_reply env (trace w) content = Inr response"
  shows "create_memo env content w =
           (if status_code response = 200 then
              (Inr True, emit (PostCall content (Inr response)) w)
            else
              (Inr False,
               print (py ''Error creating memo: '' @ py (str_int (status_code response))
                        @ py '' '' @ resp_text response)
                 (emit (PostCall content (Inr response)) w)))"
  using assms by (simp add: create_memo_def)

text \<open>An instance: the reply 201 gives \<^verbatim>\<open>False\<close> and the printed line.\<close>

theorem create_memo_success_iff_200_witness:
  "truthy (MEMOS_API_TOKEN created_201_env)
   \<and> post_reply created_201_env (trace demo_world) (py ''note'')
       = Inr \<lparr>status_code = 201, resp_text = py ''Created''\<rparr>
   \<and> fst (create_memo created_201_env (py ''note'') demo_world) = Inr False
   \<and> stdout (snd (create_memo created_201_env (py ''note'') demo_world))
       = [py ''Error creating memo: 201 Created'']"
proof -
  have h1: "truthy (MEMOS_API_TOKEN created_201_env)"
    by (simp add: created_201_env_def demo_env_def)
  have h2: "post_reply created_201_env (trace demo_world) (py ''note'')
       = Inr \<lparr>status_code = 201, resp_text = py ''Created''\<rparr>"
    by (simp add: created_201_env_def)
  from create_memo_success_iff_200[OF h1 h2] h1 h2 show ?thesis
    by (simp add: demo_world_def str_int_def digit_char_def py_def)
qed

subsection \<open>The UTF-8 decoder\<close>

text \<open>
  The decoder is unfolded one character at a time. Two facts describe it: a text of
  Unicode scalar values, encoded, decodes to itself; and whatever the bytes, the decoded
  characters are scalar values whose encoding is the input with some bytes left out.
\<close>

lemma py_inject: "py a = py b \<longleftrightarrow> a = b"
  by (simp add: py_def inj_map_eq_map inj_on_def)

declare utf8_decode.simps [simp del]

lemma utf8_decode_Nil [simp]: "utf8_decode [] = []"
  by (simp add: utf8_decode.simps)

lemma utf8_decode_1: "ch < 0x80 \<Longrightarrow> utf8_decode (ch # s) = ch # utf8_decode s"
  by (subst utf8_decode.simps) simp

lemma utf8_decode_2:
  "0xC2 \<le> ch \<Longrightarrow> ch < 0xE0 \<Longrightarrow> is_continuation ch2 \<Longrightarrow>
   utf8_decode (ch # ch2 # s) = (ch * 64 + ch2 - (0xC0 * 64 + 0x80)) # utf8_decode s"
  by (subst utf8_decode.simps) simp

lemma utf8_decode_3:
  "0xE0 \<le> ch \<Longrightarrow> ch < 0xF0 \<Longrightarrow> is_continuation ch2 \<Longrightarrow> \<not> (ch = 0xE0 \<and> ch2 < 0xA0) \<Longrightarrow>
   \<not> (ch = 0xED \<and> 0xA0 \<le> ch2) \<Longrightarrow> is_continuation ch3 \<Longrightarrow>
   utf8_decode (ch # ch2 # ch3 # s)
     = (ch * 4096 + ch2 * 64 + ch3 - (0xE0 * 4096 + 0x80 * 64 + 0x80)) # utf8_decode s"
  by (subst utf8_decode.simps) auto

lemma utf8_decode_4:
  "0xF0 \<le> ch \<Longrightarrow> ch < 0xF5 \<Longrightarrow> is_continuation ch2 \<Longrightarrow> \<not> (ch = 0xF0 \<and> ch2 < 0x90) \<Longrightarrow>
   \<not> (ch = 0xF4 \<and> 0x90 \<le> ch2) \<Longrightarrow> is_continuation ch3 \<Longrightarrow> is_continuation ch4 \<Longrightarrow>
   utf8_decode (ch # ch2 # ch3 # ch4 # s)
     = (ch * 262144 + ch2 * 4096 + ch3 * 64 + ch4
          - (0xF0 * 262144 + 0x80 * 4096 + 0x80 * 64 + 0x80)) # utf8_decode s"
  by (subst utf8_decode.simps) auto

lemma utf8_decode_ascii: "\<forall>b \<in> set bs. b < 0x80 \<Longrightarrow> utf8_decode bs = bs"
  by (induction bs) (simp_all add: utf8_decode_1)


lemma enc2:
  assumes "0x80 \<le> c" "c < 0x800"
  shows "utf8_decode (utf8_encode_char c @ bs) = c # utf8_decode bs"
proof -
  define a where "a = c div 64"
  define b where "b = c mod 64"
  have c: "c = a * 64 + b" and b: "b < 64" by (simp_all add: a_def b_def)
  with assms have a: "2 \<le> a" "a < 32" by auto
  have "utf8_encode_char c = [0xC0 + a, 0x80 + b]"
    using assms by (simp add: utf8_encode_char_def a_def b_def)
  moreover have "utf8_decode ((0xC0 + a) # (0x80 + b) # bs)
     = ((0xC0 + a) * 64 + (0x80 + b) - (0xC0 * 64 + 0x80)) # utf8_decode bs"
    using a b by (intro utf8_decode_2) (simp_all add: is_continuation_def)
  ultimately show ?thesis using c by simp
qed



lemma split3:
  fixes c :: nat
  shows "c = (c div 4096) * 4096 + (c div 64 mod 64) * 64 + c mod 64"
proof -
  have "c div 64 div 64 = c div 4096" by (simp add: div_mult2_eq)
  then have "c div 64 = (c div 4096) * 64 + c div 64 mod 64"
    using div_mult_mod_eq[of "c div 64" 64] by simp
  then show ?thesis using div_mult_mod_eq[of c 64] by linarith
qed

lemma split4:
  fixes c :: nat
  shows "c = (c div 262144) * 262144 + (c div 4096 mod 64) * 4096 + (c div 64 mod 64) * 64
             + c mod 64"
proof -
  have "c div 4096 div 64 = c div 262144" by (simp add: div_mult2_eq)
  then have "c div 4096 = (c div 262144) * 64 + c div 4096 mod 64"
    using div_mult_mod_eq[of "c div 4096" 64] by simp
  then show ?thesis using split3[of c] by linarith
qed

lemma enc3:
  assumes "0x800 \<le> c" "c < 0x10000" "\<not> (0xD800 \<le> c \<and> c \<le> 0xDFFF)"
  shows "utf8_decode (utf8_encode_char c @ bs) = c # utf8_decode bs"
proof -
  define a where "a = c div 4096"
  define b where "b = c div 64 mod 64"
  define d where "d = c mod 64"
  have c: "c = a * 4096 + b * 64 + d" unfolding a_def b_def d_def by (rule split3)
  have b: "b < 64" and d: "d < 64" by (simp_all add: b_def d_def)
  from c b d assms have a: "a < 16" "a = 0 \<longrightarrow> 32 \<le> b" "a = 13 \<longrightarrow> b < 32"
    by linarith+
  have "utf8_encode_char c = [0xE0 + a, 0x80 + b, 0x80 + d]"
    using assms by (simp add: utf8_encode_char_def a_def b_def d_def)
  moreover have "utf8_decode ((0xE0 + a) # (0x80 + b) # (0x80 + d) # bs)
     = ((0xE0 + a) * 4096 + (0x80 + b) * 64 + (0x80 + d) - (0xE0 * 4096 + 0x80 * 64 + 0x80))
       # utf8_decode bs"
    using a b d by (intro utf8_decode_3) (auto simp: is_continuation_def)
  ultimately show ?thesis using c by simp
qed


lemma enc4:
  assumes "0x10000 \<le> c" "c < 0x110000"
  shows "utf8_decode (utf8_encode_char c @ bs) = c # utf8_decode bs"
proof -
  define a where "a = c div 262144"
  define b where "b = c div 4096 mod 64"
  define d where "d = c div 64 mod 64"
  define e where "e = c mod 64"
  have c: "c = a * 262144 + b * 4096 + d * 64 + e"
    unfolding a_def b_def d_def e_def by (rule split4)
  have b: "b < 64" and d: "d < 64" and e: "e < 64" by (simp_all add: b_def d_def e_def)
  from c b d e assms have a: "a < 5" "a = 0 \<longrightarrow> 16 \<le> b" "a = 4 \<longrightarrow> b < 16"
    by linarith+
  have "utf8_encode_char c = [0xF0 + a, 0x80 + b, 0x80 + d, 0x80 + e]"
    using assms by (simp add: utf8_encode_char_def a_def b_def d_def e_def)
  moreover have "utf8_decode ((0xF0 + a) # (0x80 + b) # (0x80 + d) # (0x80 + e) # bs)
     = ((0xF0 + a) * 262144 + (0x80 + b) * 4096 + (0x80 + d) * 64 + (0x80 + e)
          - (0xF0 * 262144 + 0x80 * 4096 + 0x80 * 64 + 0x80)) # utf8_decode bs"
    using a b d e by (intro utf8_decode_4) (auto simp: is_continuation_def)
  ultimately show ?thesis using c by simp
qed

lemma utf8_decode_encode_char:
  assumes "scalar c"
  shows "utf8_decode (utf8_encode_char c @ bs) = c # utf8_decode bs"
proof -
  consider "c < 0x80" | "0x80 \<le> c" "c < 0x800" | "0x800 \<le> c" "c < 0x10000" | "0x10000 \<le> c"
    by linarith
  then show ?thesis
  proof cases
    case 1
    then show ?thesis by (simp add: utf8_encode_char_def utf8_decode_1)
  next
    case 2
    then show ?thesis by (rule enc2)
  next
    case 3
    with assms show ?thesis by (intro enc3) (simp_all add: scalar_def)
  next
    case 4
    with assms show ?thesis by (intro enc4) (simp_all add: scalar_def)
  qed
qed

lemma utf8_decode_encode: "list_all scalar cs \<Longrightarrow> utf8_decode (utf8_encode cs) = cs"
  by (induction cs) (simp_all add: utf8_encode_def utf8_decode_encode_char)


lemma utf8_encode_Nil [simp]: "utf8_encode [] = []"
  by (simp add: utf8_encode_def)

lemma utf8_encode_Cons [simp]: "utf8_encode (c # cs) = utf8_encode_char c @ utf8_encode cs"
  by (simp add: utf8_encode_def)

lemma dm:
  fixes q r m :: nat
  assumes "r < m"
  shows "(q * m + r) div m = q" and "(q * m + r) mod m = r"
  using assms by simp_all

lemma char1: "ch < 0x80 \<Longrightarrow> utf8_encode_char ch = [ch] \<and> scalar ch"
  by (simp add: utf8_encode_char_def scalar_def)

lemma char2:
  assumes "0xC2 \<le> ch" "ch < 0xE0" "is_continuation ch2"
  shows "utf8_encode_char (ch * 64 + ch2 - (0xC0 * 64 + 0x80)) = [ch, ch2]
       \<and> scalar (ch * 64 + ch2 - (0xC0 * 64 + 0x80))"
proof -
  define a where "a = ch - 0xC0"
  define b where "b = ch2 - 0x80"
  from assms have ch: "ch = 0xC0 + a" "ch2 = 0x80 + b" and a: "2 \<le> a" "a < 32" and b: "b < 64"
    by (auto simp: a_def b_def is_continuation_def)
  have c: "ch * 64 + ch2 - (0xC0 * 64 + 0x80) = a * 64 + b" using ch by simp
  have "(a * 64 + b) div 64 = a" "(a * 64 + b) mod 64 = b" using b by simp_all
  moreover have "0x80 \<le> a * 64 + b" "a * 64 + b < 0x800" using a b by linarith+
  ultimately show ?thesis unfolding c using ch
    by (simp add: utf8_encode_char_def scalar_def)
qed

lemma char3:
  assumes "0xE0 \<le> ch" "ch < 0xF0" "is_continuation ch2" "is_continuation ch3"
    and "\<not> (ch = 0xE0 \<and> ch2 < 0xA0)" and "\<not> (ch = 0xED \<and> 0xA0 \<le> ch2)"
  shows "utf8_encode_char (ch * 4096 + ch2 * 64 + ch3 - (0xE0 * 4096 + 0x80 * 64 + 0x80))
           = [ch, ch2, ch3]
       \<and> scalar (ch * 4096 + ch2 * 64 + ch3 - (0xE0 * 4096 + 0x80 * 64 + 0x80))"
proof -
  define a where "a = ch - 0xE0"
  define b where "b = ch2 - 0x80"
  define d where "d = ch3 - 0x80"
  from assms have ch: "ch = 0xE0 + a" "ch2 = 0x80 + b" "ch3 = 0x80 + d"
    and a: "a < 16" "a = 0 \<longrightarrow> 32 \<le> b" "a = 13 \<longrightarrow> b < 32" and b: "b < 64" and d: "d < 64"
    by (auto simp: a_def b_def d_def is_continuation_def)
  let ?c = "a * 4096 + b * 64 + d"
  have c: "ch * 4096 + ch2 * 64 + ch3 - (0xE0 * 4096 + 0x80 * 64 + 0x80) = ?c"
    using ch by simp
  have e1: "?c = (a * 64 + b) * 64 + d" by simp
  have m: "?c mod 64 = d" unfolding e1 using d by (rule dm)
  have "?c div 64 = a * 64 + b" unfolding e1 using d by (rule dm)
  then have d64: "?c div 64 mod 64 = b" using dm(2)[OF b, of a] by simp
  have e2: "?c = a * 4096 + (b * 64 + d)" by simp
  have "b * 64 + d < 4096" using b d by linarith
  with e2 have d4096: "?c div 4096 = a" using dm(1)[of "b * 64 + d" 4096 a] by simp
  have r: "0x800 \<le> ?c" "?c < 0x10000" using a b d by linarith+
  have "a \<le> 12 \<or> a = 13 \<or> 14 \<le> a" by linarith
  with a b d have r3: "\<not> (0xD800 \<le> ?c \<and> ?c \<le> 0xDFFF)" by auto
  show ?thesis unfolding c using ch r r3 m d64 d4096
    by (simp add: utf8_encode_char_def scalar_def)
qed

lemma char4:
  assumes "0xF0 \<le> ch" "ch < 0xF5" "is_continuation ch2" "is_continuation ch3"
    and "is_continuation ch4"
    and "\<not> (ch = 0xF0 \<and> ch2 < 0x90)" and "\<not> (ch = 0xF4 \<and> 0x90 \<le> ch2)"
  shows "utf8_encode_char (ch * 262144 + ch2 * 4096 + ch3 * 64 + ch4
                            - (0xF0 * 262144 + 0x80 * 4096 + 0x80 * 64 + 0x80))
           = [ch, ch2, ch3, ch4]
       \<and> scalar (ch * 262144 + ch2 * 4096 + ch3 * 64 + ch4
                   - (0xF0 * 262144 + 0x80 * 4096 + 0x80 * 64 + 0x80))"
proof -
  define a where "a = ch - 0xF0"
  define b where "b = ch2 - 0x80"
  define d where "d = ch3 - 0x80"
  define e where "e = ch4 - 0x80"
  from assms have ch: "ch = 0xF0 + a" "ch2 = 0x80 + b" "ch3 = 0x80 + d" "ch4 = 0x80 + e"
    and a: "a < 5" "a = 0 \<longrightarrow> 16 \<le> b" "a = 4 \<longrightarrow> b < 16"
    and b: "b < 64" and d: "d < 64" and e: "e < 64"
    by (auto simp: a_def b_def d_def e_def is_continuation_def)
  let ?c = "a * 262144 + b * 4096 + d * 64 + e"
  have c: "ch * 262144 + ch2 * 4096 + ch3 * 64 + ch4
             - (0xF0 * 262144 + 0x80 * 4096 + 0x80 * 64 + 0x80) = ?c"
    using ch by simp
  have e1: "?c = ((a * 64 + b) * 64 + d) * 64 + e" by simp
  have m: "?c mod 64 = e" unfolding e1 using e by (rule dm)
  have "?c div 64 = (a * 64 + b) * 64 + d" unfolding e1 using e by (rule dm)
  then have d64: "?c div 64 mod 64 = d" using dm(2)[OF d, of "a * 64 + b"] by simp
  have e2: "?c = (a * 64 + b) * 4096 + (d * 64 + e)" by simp
  have "d * 64 + e < 4096" using d e by linarith
  with e2 have "?c div 4096 = a * 64 + b"
    using dm(1)[of "d * 64 + e" 4096 "a * 64 + b"] by simp
  then have d4096: "?c div 4096 mod 64 = b" using dm(2)[OF b, of a] by simp
  have e3: "?c = a * 262144 + (b * 4096 + d * 64 + e)" by simp
  have "b * 4096 + d * 64 + e < 262144" using b d e by linarith
  with e3 have d262144: "?c div 262144 = a"
    using dm(1)[of "b * 4096 + d * 64 + e" 262144 a] by simp
  have r: "0x10000 \<le> ?c" "?c < 0x110000" using a b d e by linarith+
  show ?thesis unfolding c using ch r m d64 d4096 d262144
    by (simp add: utf8_encode_char_def scalar_def)
qed



lemma skip_b: "0x80 \<le> ch \<Longrightarrow> ch < 0xC2 \<Longrightarrow> utf8_decode (ch # s) = utf8_decode s"
  by (subst utf8_decode.simps) simp

lemma skip_f: "0xF5 \<le> ch \<Longrightarrow> utf8_decode (ch # s) = utf8_decode s"
  by (subst utf8_decode.simps) simp

lemma end_1: "0xC2 \<le> ch \<Longrightarrow> ch < 0xF5 \<Longrightarrow> utf8_decode [ch] = []"
  by (subst utf8_decode.simps) simp

lemma skip_c1:
  "0xC2 \<le> ch \<Longrightarrow> ch < 0xE0 \<Longrightarrow> \<not> is_continuation ch2 \<Longrightarrow>
   utf8_decode (ch # ch2 # s) = utf8_decode (ch2 # s)"
  by (subst utf8_decode.simps) simp

lemma skip_d1:
  "0xE0 \<le> ch \<Longrightarrow> ch < 0xF0 \<Longrightarrow>
   \<not> is_continuation ch2 \<or> (ch = 0xE0 \<and> ch2 < 0xA0) \<or> (ch = 0xED \<and> 0xA0 \<le> ch2) \<Longrightarrow>
   utf8_decode (ch # ch2 # s) = utf8_decode (ch2 # s)"
  by (subst utf8_decode.simps, cases s) auto

lemma end_d2:
  "0xE0 \<le> ch \<Longrightarrow> ch < 0xF0 \<Longrightarrow> is_continuation ch2 \<Longrightarrow> \<not> (ch = 0xE0 \<and> ch2 < 0xA0) \<Longrightarrow>
   \<not> (ch = 0xED \<and> 0xA0 \<le> ch2) \<Longrightarrow> utf8_decode [ch, ch2] = []"
  by (subst utf8_decode.simps) auto

lemma skip_d2:
  "0xE0 \<le> ch \<Longrightarrow> ch < 0xF0 \<Longrightarrow> is_continuation ch2 \<Longrightarrow> \<not> (ch = 0xE0 \<and> ch2 < 0xA0) \<Longrightarrow>
   \<not> (ch = 0xED \<and> 0xA0 \<le> ch2) \<Longrightarrow> \<not> is_continuation ch3 \<Longrightarrow>
   utf8_decode (ch # ch2 # ch3 # s) = utf8_decode (ch3 # s)"
  by (subst utf8_decode.simps) auto

lemma skip_e1:
  "0xF0 \<le> ch \<Longrightarrow> ch < 0xF5 \<Longrightarrow>
   \<not> is_continuation ch2 \<or> (ch = 0xF0 \<and> ch2 < 0x90) \<or> (ch = 0xF4 \<and> 0x90 \<le> ch2) \<Longrightarrow>
   utf8_decode (ch # ch2 # s) = utf8_decode (ch2 # s)"
  by (subst utf8_decode.simps, cases s; cases "tl s") auto

lemma end_e2:
  "0xF0 \<le> ch \<Longrightarrow> ch < 0xF5 \<Longrightarrow> is_continuation ch2 \<Longrightarrow> \<not> (ch = 0xF0 \<and> ch2 < 0x90) \<Longrightarrow>
   \<not> (ch = 0xF4 \<and> 0x90 \<le> ch2) \<Longrightarrow> utf8_decode [ch, ch2] = []"
  by (subst utf8_decode.simps) auto

lemma skip_e2:
  "0xF0 \<le> ch \<Longrightarrow> ch < 0xF5 \<Longrightarrow> is_continuation ch2 \<Longrightarrow> \<not> (ch = 0xF0 \<and> ch2 < 0x90) \<Longrightarrow>
   \<not> (ch = 0xF4 \<and> 0x90 \<le> ch2) \<Longrightarrow> \<not> is_continuation ch3 \<Longrightarrow>
   utf8_decode (ch # ch2 # ch3 # s) = utf8_decode (ch3 # s)"
  by (subst utf8_decode.simps, cases s) auto

lemma end_e3:
  "0xF0 \<le> ch \<Longrightarrow> ch < 0xF5 \<Longrightarrow> is_continuation ch2 \<Longrightarrow> \<not> (ch = 0xF0 \<and> ch2 < 0x90) \<Longrightarrow>
   \<not> (ch = 0xF4 \<and> 0x90 \<le> ch2) \<Longrightarrow> is_continuation ch3 \<Longrightarrow>
   utf8_decode [ch, ch2, ch3] = []"
  by (subst utf8_decode.simps) auto

lemma skip_e3:
  "0xF0 \<le> ch \<Longrightarrow> ch < 0xF5 \<Longrightarrow> is_continuation ch2 \<Longrightarrow> \<not> (ch = 0xF0 \<and> ch2 < 0x90) \<Longrightarrow>
   \<not> (ch = 0xF4 \<and> 0x90 \<le> ch2) \<Longrightarrow> is_continuation ch3 \<Longrightarrow> \<not> is_continuation ch4 \<Longrightarrow>
   utf8_decode (ch # ch2 # ch3 # ch4 # s) = utf8_decode (ch4 # s)"
  by (subst utf8_decode.simps) auto


lemma utf8_decode_step:
  "\<exists>k. 0 < k \<and> k \<le> length (ch # s) \<and>
     (utf8_decode (ch # s) = utf8_decode (drop k (ch # s))
      \<or> (\<exists>c. scalar c \<and> utf8_encode_char c = take k (ch # s)
               \<and> utf8_decode (ch # s) = c # utf8_decode (drop k (ch # s))))"
  (is "\<exists>k. ?step k")
proof -
  consider (a) "ch < 0x80" | (b) "0x80 \<le> ch" "ch < 0xC2" | (c) "0xC2 \<le> ch" "ch < 0xE0"
    | (d) "0xE0 \<le> ch" "ch < 0xF0" | (e) "0xF0 \<le> ch" "ch < 0xF5" | (f) "0xF5 \<le> ch"
    by linarith
  then show ?thesis
  proof cases
    case a
    then have "?step 1" by (simp add: utf8_decode_1 char1)
    then show ?thesis ..
  next
    case b
    then have "?step 1" by (simp add: skip_b)
    then show ?thesis ..
  next
    case f
    then have "?step 1" by (simp add: skip_f)
    then show ?thesis ..
  next
    case c
    show ?thesis
    proof (cases s)
      case Nil
      with c have "?step 1" by (simp add: end_1)
      then show ?thesis ..
    next
      case (Cons ch2 s2)
      show ?thesis
      proof (cases "is_continuation ch2")
        case False
        with c Cons have "?step 1" by (simp add: skip_c1)
        then show ?thesis ..
      next
        case True
        with c Cons char2[of ch ch2] have "?step 2" by (simp add: utf8_decode_2)
        then show ?thesis ..
      qed
    qed
  next
    case d
    show ?thesis
    proof (cases s)
      case Nil
      with d have "?step 1" by (simp add: end_1)
      then show ?thesis ..
    next
      case (Cons ch2 s2)
      show ?thesis
      proof (cases "\<not> is_continuation ch2 \<or> (ch = 0xE0 \<and> ch2 < 0xA0)
                      \<or> (ch = 0xED \<and> 0xA0 \<le> ch2)")
        case True
        with d Cons have "?step 1" by (simp add: skip_d1)
        then show ?thesis ..
      next
        case ok: False
        show ?thesis
        proof (cases s2)
          case Nil
          with d Cons ok have "?step 2" by (simp add: end_d2)
          then show ?thesis ..
        next
          case s2: (Cons ch3 s3)
          show ?thesis
          proof (cases "is_continuation ch3")
            case False
            with d Cons ok s2 have "?step 2" by (simp add: skip_d2)
            then show ?thesis ..
          next
            case True
            with d Cons ok s2 char3[of ch ch2 ch3] have "?step 3" by (simp add: utf8_decode_3)
            then show ?thesis ..
          qed
        qed
      qed
    qed
  next
    case e
    show ?thesis
    proof (cases s)
      case Nil
      with e have "?step 1" by (simp add: end_1)
      then show ?thesis ..
    next
      case (Cons ch2 s2)
      show ?thesis
      proof (cases "\<not> is_continuation ch2 \<or> (ch = 0xF0 \<and> ch2 < 0x90)
                      \<or> (ch = 0xF4 \<and> 0x90 \<le> ch2)")
        case True
        with e Cons have "?step 1" by (simp add: skip_e1)
        then show ?thesis ..
      next
        case ok: False
        show ?thesis
        proof (cases s2)
          case Nil
          with e Cons ok have "?step 2" by (simp add: end_e2)
          then show ?thesis ..
        next
          case s2: (Cons ch3 s3)
          show ?thesis
          proof (cases "is_continuation ch3")
            case False
            with e Cons ok s2 have "?step 2" by (simp add: skip_e2)
            then show ?thesis ..
          next
            case c3: True
            show ?thesis
            proof (cases s3)
              case Nil
              with e Cons ok s2 c3 have "?step 3" by (simp add: end_e3)
              then show ?thesis ..
            next
              case s3: (Cons ch4 s4)
              show ?thesis
              proof (cases "is_continuation ch4")
                case False
                with e Cons ok s2 c3 s3 have "?step 3" by (simp add: skip_e3)
                then show ?thesis ..
              next
                case True
                with e Cons ok s2 c3 s3 char4[of ch ch2 ch3 ch4] have "?step 4"
                  by (simp add: utf8_decode_4)
                then show ?thesis ..
              qed
            qed
          qed
        qed
      qed
    qed
  qed
qed

lemma utf8_decode_skips:
  "subseq (utf8_encode (utf8_decode bs)) bs \<and> list_all scalar (utf8_decode bs)"
proof (induction bs rule: length_induct)
  case (1 bs)
  show ?case
  proof (cases bs)
    case Nil
    then show ?thesis by simp
  next
    case (Cons ch s)
    from utf8_decode_step[of ch s] Cons obtain k where k: "0 < k" "k \<le> length bs"
      and st: "utf8_decode bs = utf8_decode (drop k bs)
        \<or> (\<exists>c. scalar c \<and> utf8_encode_char c = take k bs
               \<and> utf8_decode bs = c # utf8_decode (drop k bs))"
      by auto
    from k Cons have "length (drop k bs) < length bs" by simp
    with 1 have IH: "subseq (utf8_encode (utf8_decode (drop k bs))) (drop k bs)"
      "list_all scalar (utf8_decode (drop k bs))" by auto
    have bs: "bs = take k bs @ drop k bs" by simp
    from st show ?thesis
    proof
      assume "utf8_decode bs = utf8_decode (drop k bs)"
      moreover have "subseq (utf8_encode (utf8_decode (drop k bs))) (take k bs @ drop k bs)"
        using IH(1) by (rule list_emb_append2)
      ultimately show ?thesis using IH(2) by simp
    next
      assume "\<exists>c. scalar c \<and> utf8_encode_char c = take k bs
               \<and> utf8_decode bs = c # utf8_decode (drop k bs)"
      then obtain c where c: "scalar c" "utf8_encode_char c = take k bs"
        "utf8_decode bs = c # utf8_decode (drop k bs)" by auto
      have "subseq (take k bs @ utf8_encode (utf8_decode (drop k bs))) (take k bs @ drop k bs)"
        using IH(1) by (intro list_emb_append_mono) simp_all
      with c IH(2) show ?thesis by simp
    qed
  qed
qed

subsection \<open>What a listing returns\<close>

lemma parts_body_find:
  "parts_body ps =
     (case find (\<lambda>p. part_mimeType p = py ''text/plain'') ps of
        None \<Rightarrow> Inr []
      | Some p \<Rightarrow> decode_body (case body_data (part_body p) of None \<Rightarrow> [] | Some d \<Rightarrow> d))"
  by (induction ps) simp_all

lemma get_body_chosen:
  "get_body pl = (case chosen_data pl of None \<Rightarrow> Inr [] | Some d \<Rightarrow> decode_body d)"
  by (simp add: get_body_def chosen_data_def parts_body_find split: option.splits)

text \<open>Decoding the chosen body data raises exactly when that data is not valid base64.\<close>

lemma decodable_iff: "decodable pl \<longleftrightarrow> (\<exists>body. get_body pl = Inr body)"
  by (auto simp: decodable_def get_body_chosen decode_body_def split: option.splits sum.splits)

text \<open>The headers of a message play no part in it.\<close>

lemma decodable_headers: "decodable (pl\<lparr>payload_headers := hs\<rparr>) = decodable pl"
  by (cases "payload_parts pl") (simp_all add: decodable_def chosen_data_def)

lemma fetched_GetCalls:
  "fetched (map (\<lambda>(i, pl, b). GetCall i (Inr pl)) items) = map (\<lambda>(i, pl, b). (i, pl)) items"
  by (induction items) auto

text \<open>
  A loop over the listed ids that ends normally has fetched every id, has decoded a body
  for each fetched message and has appended one item per message, in order.
\<close>

lemma fetch_each_Inr:
  assumes "fetch_each env ids acc w = (Inr emails, w')"
  shows "\<exists>items. emails = acc @ map (\<lambda>(i, pl, b). make_email i pl b) items
           \<and> trace w' = trace w @ map (\<lambda>(i, pl, b). GetCall i (Inr pl)) items
           \<and> (\<forall>(i, pl, b) \<in> set items. get_body pl = Inr b)
           \<and> map fst items = ids"
  using assms
proof (induction ids arbitrary: acc w)
  case Nil
  then show ?case by (intro exI[of _ "[]"]) simp
next
  case (Cons msg_id rest)
  from Cons.prems obtain pl where g: "get_reply env (trace w) msg_id = Inr pl"
    by (cases "get_reply env (trace w) msg_id") auto
  with Cons.prems obtain b where b: "get_body pl = Inr b"
    by (cases "get_body pl") auto
  with g Cons.prems
  have rec: "fetch_each env rest (acc @ [make_email msg_id pl b])
               (emit (GetCall msg_id (Inr pl)) w) = (Inr emails, w')" by simp
  from Cons.IH[OF rec] obtain items where
    i: "emails = (acc @ [make_email msg_id pl b]) @ map (\<lambda>(i, pl, b). make_email i pl b) items"
       "trace w' = trace (emit (GetCall msg_id (Inr pl)) w)
                   @ map (\<lambda>(i, pl, b). GetCall i (Inr pl)) items"
       "\<forall>(i, pl, b) \<in> set items. get_body pl = Inr b"
       "map fst items = rest" by blast
  with b show ?case
    by (intro exI[of _ "(msg_id, pl, b) # items"]) simp
qed

text \<open>
  The loop ends normally exactly when every fetch succeeds and returns a message whose
  chosen body data is valid base64.
\<close>

lemma fetch_each_returns_iff:
  "(\<exists>emails w'. fetch_each env ids acc w = (Inr emails, w')) \<longleftrightarrow> fetches_ok env ids (trace w)"
proof (induction ids arbitrary: acc w)
  case Nil
  show ?case by simp
next
  case (Cons msg_id rest)
  show ?case
  proof (cases "get_reply env (trace w) msg_id")
    case (Inl e)
    then show ?thesis by simp
  next
    case (Inr pl)
    show ?thesis
    proof (cases "get_body pl")
      case (Inl e)
      with Inr decodable_iff[of pl] show ?thesis by simp
    next
      case b: (Inr body)
      with decodable_iff[of pl] have "decodable pl" by auto
      with Inr b Cons.IH[of "acc @ [make_email msg_id pl body]"
                            "emit (GetCall msg_id (Inr pl)) w"]
      show ?thesis by simp
    qed
  qed
qed

lemma get_unread_emails_returns_iff:
  "(\<exists>emails w'. get_unread_emails env service n w = (Inr emails, w'))
   \<longleftrightarrow> (\<exists>results. list_reply env (trace w) n = Inr results
         \<and> fetches_ok env (case results of None \<Rightarrow> [] | Some messages \<Rightarrow> messages)
              (trace w @ [ListCall n]))"
proof (cases "list_reply env (trace w) n")
  case (Inl e)
  then show ?thesis by (simp add: get_unread_emails_def)
next
  case (Inr results)
  with fetch_each_returns_iff[of env "case results of None \<Rightarrow> [] | Some messages \<Rightarrow> messages"
         "[]" "emit (ListCall n) w"]
  show ?thesis by (simp add: get_unread_emails_def)
qed

text \<open>
  Fetches that succeed at every point of a run, each with body data that can be decoded, are
  enough.
\<close>

lemma fetches_ok_always:
  assumes "\<forall>tr msg_id. case get_reply env tr msg_id of Inl e \<Rightarrow> False | Inr pl \<Rightarrow> decodable pl"
  shows "fetches_ok env ids tr"
proof (induction ids arbitrary: tr)
  case Nil
  show ?case by simp
next
  case (Cons msg_id rest)
  from assms have "case get_reply env tr msg_id of Inl e \<Rightarrow> False | Inr pl \<Rightarrow> decodable pl"
    by blast
  with Cons.IH show ?case by (auto split: sum.splits)
qed

lemma get_unread_emails_Inr:
  assumes "get_unread_emails env service n w = (Inr emails, w')"
  shows "\<exists>items. emails = map (\<lambda>(i, pl, b). make_email i pl b) items
           \<and> fetched (new_events w w') = map (\<lambda>(i, pl, b). (i, pl)) items
           \<and> (\<forall>(i, pl, b) \<in> set items. get_body pl = Inr b)
           \<and> (\<forall>results. list_reply env (trace w) n = Inr results \<longrightarrow>
                 map fst items = (case results of None \<Rightarrow> [] | Some messages \<Rightarrow> messages))"
proof -
  from assms obtain results where l: "list_reply env (trace w) n = Inr results"
    by (cases "list_reply env (trace w) n") (auto simp: get_unread_emails_def)
  with assms
  have "fetch_each env (case results of None \<Rightarrow> [] | Some messages \<Rightarrow> messages) []
          (emit (ListCall n) w) = (Inr emails, w')"
    by (simp add: get_unread_emails_def)
  from fetch_each_Inr[OF this] obtain items where
    i: "emails = map (\<lambda>(i, pl, b). make_email i pl b) items"
       "trace w' = trace (emit (ListCall n) w) @ map (\<lambda>(i, pl, b). GetCall i (Inr pl)) items"
       "\<forall>(i, pl, b) \<in> set items. get_body pl = Inr b"
       "map fst items = (case results of None \<Rightarrow> [] | Some messages \<Rightarrow> messages)" by auto
  from i(2) have "new_events w w' = ListCall n # map (\<lambda>(i, pl, b). GetCall i (Inr pl)) items"
    by (simp add: new_events_def)
  then have "fetched (new_events w w') = map (\<lambda>(i, pl, b). (i, pl)) items"
    by (simp add: fetched_GetCalls)
  with i l show ?thesis by auto
qed

lemma urlsafe_b64decode_Nil: "urlsafe_b64decode [] = Inr []"
  by (simp add: urlsafe_b64decode_def)

lemma utf8_decode_ignore_Nil: "utf8_decode_ignore [] = []"
  by (simp add: utf8_decode_ignore_def)

lemma e_body_make_email: "e_body (make_email i pl b) = take 5000 b"
  by (simp add: make_email_def Let_def)

lemma e_id_make_email: "e_id (make_email i pl b) = i"
  by (simp add: make_email_def Let_def)

lemma fold_update_None:
  "name \<notin> fst ` set hs \<Longrightarrow> d name = None \<Longrightarrow>
   fold (\<lambda>(name, v) d. d(name \<mapsto> v)) hs d name = None"
  by (induction hs arbitrary: d) auto

lemma get_default_missing:
  "name \<notin> header_names pl \<Longrightarrow> get_default (headers_dict (payload_headers pl)) name dflt = dflt"
  by (simp add: get_default_def headers_dict_def header_names_def fold_update_None)

lemmas eval_listing =
  get_unread_emails_def demo_env_def demo_world_def get_body_def decode_body_def
  urlsafe_b64decode_def urlsafe_translate_def b64_value_def make_email_def headers_dict_def
  get_default_def emit_def py_def utf8_decode_ignore_def utf8_decode.simps
  is_continuation_def

lemma mail_env_listing:
  "get_unread_emails mail_env (Service ''gmail'' ''v1'' demo_creds) 10 demo_world
   = (Inr [\<lparr>e_id = py ''m1'', e_subject = py ''(no subject)'',
            e_from = py ''(unknown sender)'', e_date = [], e_body = py ''hello''\<rparr>,
           \<lparr>e_id = py ''m2'', e_subject = py ''hi'', e_from = py ''bob'',
            e_date = py ''today'', e_body = [0x68, 0xE9, 0x69]\<rparr>],
      \<lparr>token_file = None,
       trace = [ListCall 10, GetCall (py ''m1'') (Inr multipart_payload),
                GetCall (py ''m2'') (Inr plain_payload)],
       stdout = []\<rparr>)"
  by (simp add: eval_listing mail_env_def multipart_payload_def plain_payload_def)

lemma mail_env_fetches_ok:
  "list_reply mail_env (trace demo_world) 10 = Inr (Some [py ''m1'', py ''m2''])
   \<and> fetches_ok mail_env [py ''m1'', py ''m2''] (trace demo_world @ [ListCall 10])"
  by (simp add: mail_env_def demo_env_def decodable_def chosen_data_def multipart_payload_def
      plain_payload_def urlsafe_b64decode_def urlsafe_translate_def b64_value_def py_def)

subsection \<open>Body extraction\<close>

text \<open>
  Claim C9 as stated fails: body data that is not valid base64 does not give an empty
  body; the exception of the decoder ends the whole listing.
\<close>

theorem listing_aborts_on_bad_base64:
  "fst (get_unread_emails bad_b64_env (Service ''gmail'' ''v1'' demo_creds) 10 demo_world)
     = Inl BinasciiError"
  by (simp add: eval_listing bad_b64_env_def)

text \<open>
  Claim C9, amended. If the list call and every fetch of a listing succeed and the body data
  chosen for each message is valid base64, the listing returns, with one item per listed
  message, in order. The body of an item is at most 5000 characters long. It is empty when
  no data is chosen: a message with parts has no part of type \<^verbatim>\<open>text/plain\<close>, or a
  message without parts has no top-level body data. Otherwise the chosen data is that of
  the first \<^verbatim>\<open>text/plain\<close> part or else the top-level body, and the body is the first
  5000 characters of its UTF-8 decoding; chosen data that is empty, as for a part without
  data, gives the empty body. The decoding never fails and only skips bytes: encoded
  again, its characters are the bytes of the data with some bytes left out, and data that
  is the encoding of a text decodes to that text.
\<close>

theorem listing_body_extraction:
  assumes "list_reply env (trace w) n = Inr results"
    and "fetches_ok env (case results of None \<Rightarrow> [] | Some messages \<Rightarrow> messages)
           (trace w @ [ListCall n])"
  shows "\<exists>emails w'.
           get_unread_emails env service n w = (Inr emails, w')
           \<and> map fst (fetched (new_events w w'))
               = (case results of None \<Rightarrow> [] | Some messages \<Rightarrow> messages)
           \<and> list_all2
               (\<lambda>email (msg_id, pl).
                  e_id email = msg_id
                  \<and> length (e_body email) \<le> 5000
                  \<and> (case chosen_data pl of
                       None \<Rightarrow> e_body email = []
                     | Some d \<Rightarrow>
                         (case urlsafe_b64decode d of
                            Inl e \<Rightarrow> False
                          | Inr bs \<Rightarrow> e_body email = take 5000 (utf8_decode_ignore bs)))
                  \<and> (chosen_data pl = Some [] \<longrightarrow> e_body email = []))
               emails (fetched (new_events w w'))
           \<and> (\<forall>bs. subseq (utf8_encode (utf8_decode_ignore bs)) (map unat bs)
                    \<and> list_all scalar (utf8_decode_ignore bs))
           \<and> (\<forall>bs cs. list_all scalar cs \<and> map unat bs = utf8_encode cs
                    \<longrightarrow> utf8_decode_ignore bs = cs)"
proof -
  from assms get_unread_emails_returns_iff[of env service n w]
  obtain emails w' where run: "get_unread_emails env service n w = (Inr emails, w')"
    by auto
  from get_unread_emails_Inr[OF run] assms(1) obtain items where
    i: "emails = map (\<lambda>(i, pl, b). make_email i pl b) items"
       "fetched (new_events w w') = map (\<lambda>(i, pl, b). (i, pl)) items"
       "\<forall>(i, pl, b) \<in> set items. get_body pl = Inr b"
       "map fst items = (case results of None \<Rightarrow> [] | Some messages \<Rightarrow> messages)"
    by blast
  have "(case chosen_data pl of
           None \<Rightarrow> e_body (make_email i pl b) = []
         | Some d \<Rightarrow>
             (case urlsafe_b64decode d of
                Inl e \<Rightarrow> False
              | Inr bs \<Rightarrow> e_body (make_email i pl b) = take 5000 (utf8_decode_ignore bs)))
        \<and> (chosen_data pl = Some [] \<longrightarrow> e_body (make_email i pl b) = [])"
    if "(i, pl, b) \<in> set items" for i pl b
  proof -
    from that i(3) have "get_body pl = Inr b" by auto
    then show ?thesis
      by (auto simp: get_body_chosen decode_body_def e_body_make_email
          urlsafe_b64decode_Nil utf8_decode_ignore_Nil split: option.splits sum.splits)
  qed
  then have a: "list_all2
               (\<lambda>email (msg_id, pl).
                  e_id email = msg_id
                  \<and> length (e_body email) \<le> 5000
                  \<and> (case chosen_data pl of
                       None \<Rightarrow> e_body email = []
                     | Some d \<Rightarrow>
                         (case urlsafe_b64decode d of
                            Inl e \<Rightarrow> False
                          | Inr bs \<Rightarrow> e_body email = take 5000 (utf8_decode_ignore bs)))
                  \<and> (chosen_data pl = Some [] \<longrightarrow> e_body email = []))
               emails (fetched (new_events w w'))"
    unfolding i
    by (auto simp: list_all2_map1 list_all2_map2 e_body_make_email e_id_make_email
        intro!: list_all2_same[THEN iffD2])
  have b: "map fst (fetched (new_events w w'))
             = (case results of None \<Rightarrow> [] | Some messages \<Rightarrow> messages)"
    using i(2,4) by (simp add: comp_def case_prod_unfold)
  have c: "\<forall>bs. subseq (utf8_encode (utf8_decode_ignore bs)) (map unat bs)
                \<and> list_all scalar (utf8_decode_ignore bs)"
    by (simp add: utf8_decode_ignore_def utf8_decode_skips)
  have d: "\<forall>bs cs. list_all scalar cs \<and> map unat bs = utf8_encode cs
                \<longrightarrow> utf8_decode_ignore bs = cs"
    by (simp add: utf8_decode_ignore_def utf8_decode_encode)
  from run a b c d show ?thesis by blast
qed

text \<open>
  An instance: the plain-text part is taken although it comes second, and the message
  without parts gives its top-level body, in which the byte FF is skipped and the bytes
  C3 A9 are the one character E9.
\<close>

theorem listing_body_extraction_witness:
  "list_reply mail_env (trace demo_world) 10 = Inr (Some [py ''m1'', py ''m2''])
   \<and> fetches_ok mail_env [py ''m1'', py ''m2''] (trace demo_world @ [ListCall 10])
   \<and> fst (get_unread_emails mail_env (Service ''gmail'' ''v1'' demo_creds) 10 demo_world)
     = Inr [\<lparr>e_id = py ''m1'', e_subject = py ''(no subject)'',
             e_from = py ''(unknown sender)'', e_date = [], e_body = py ''hello''\<rparr>,
            \<lparr>e_id = py ''m2'', e_subject = py ''hi'', e_from = py ''bob'',
             e_date = py ''today'', e_body = [0x68, 0xE9, 0x69]\<rparr>]
   \<and> chosen_data multipart_payload = Some (py ''aGVsbG8='')
   \<and> chosen_data plain_payload = Some (py ''aP_DqWk='')
   \<and> urlsafe_b64decode (py ''aP_DqWk='') = Inr [0x68, 0xFF, 0xC3, 0xA9, 0x69]"
proof -
  have h1: "list_reply mail_env (trace demo_world) 10 = Inr (Some [py ''m1'', py ''m2''])"
    using mail_env_fetches_ok by simp
  have h2: "fetches_ok mail_env
              (case Some [py ''m1'', py ''m2''] of None \<Rightarrow> [] | Some messages \<Rightarrow> messages)
              (trace demo_world @ [ListCall 10])"
    using mail_env_fetches_ok by simp
  from listing_body_extraction[OF h1 h2, of "Service ''gmail'' ''v1'' demo_creds"]
  obtain emails w' where
    "get_unread_emails mail_env (Service ''gmail'' ''v1'' demo_creds) 10 demo_world
       = (Inr emails, w')" by blast
  with mail_env_listing
  have "fst (get_unread_emails mail_env (Service ''gmail'' ''v1'' demo_creds) 10 demo_world)
     = Inr [\<lparr>e_id = py ''m1'', e_subject = py ''(no subject)'',
             e_from = py ''(unknown sender)'', e_date = [], e_body = py ''hello''\<rparr>,
            \<lparr>e_id = py ''m2'', e_subject = py ''hi'', e_from = py ''bob'',
             e_date = py ''today'', e_body = [0x68, 0xE9, 0x69]\<rparr>]"
    by simp
  moreover have "chosen_data multipart_payload = Some (py ''aGVsbG8='')"
    "chosen_data plain_payload = Some (py ''aP_DqWk='')"
    by (simp_all add: chosen_data_def multipart_payload_def plain_payload_def py_def)
  moreover have "urlsafe_b64decode (py ''aP_DqWk='') = Inr [0x68, 0xFF, 0xC3, 0xA9, 0x69]"
    by (simp add: urlsafe_b64decode_def urlsafe_translate_def b64_value_def py_def)
  ultimately show ?thesis using h1 mail_env_fetches_ok by simp
qed

subsection \<open>Defaults for missing headers\<close>

text \<open>
  Claim C10. If the list call and every fetch of a listing succeed and the body data chosen
  for each message is valid base64, which does not depend on the headers of the messages,
  the listing returns, with one item per listed message, in order. Where the headers of
  the message have no \<^verbatim>\<open>Subject\<close>, \<^verbatim>\<open>From\<close> or \<^verbatim>\<open>Date\<close> entry, the item has the
  subject \<^verbatim>\<open>(no subject)\<close>, the sender \<^verbatim>\<open>(unknown sender)\<close> or the empty date; and
  the note draft of the item is the fixed template filled with these fields of the item,
  so the defaults appear in the draft.
\<close>

theorem listing_substitutes_header_defaults:
  assumes "list_reply env (trace w) n = Inr results"
    and "fetches_ok env (case results of None \<Rightarrow> [] | Some messages \<Rightarrow> messages)
           (trace w @ [ListCall n])"
  shows "\<exists>emails w'.
           get_unread_emails env service n w = (Inr emails, w')
           \<and> map fst (fetched (new_events w w'))
               = (case results of None \<Rightarrow> [] | Some messages \<Rightarrow> messages)
           \<and> list_all2
               (\<lambda>email (msg_id, pl).
                  e_id email = msg_id
                  \<and> (py ''Subject'' \<notin> header_names pl
                       \<longrightarrow> e_subject email = py ''(no subject)'')
                  \<and> (py ''From'' \<notin> header_names pl
                       \<longrightarrow> e_from email = py ''(unknown sender)'')
                  \<and> (py ''Date'' \<notin> header_names pl \<longrightarrow> e_date email = [])
                  \<and> email_to_memo_content email =
                      py ''#inbox #email'' @ NL @ NL
                      @ py ''**From:** '' @ e_from email @ NL
                      @ py ''**Subject:** '' @ e_subject email @ NL
                      @ py ''**Date:** '' @ e_date email @ NL @ NL
                      @ py ''---'' @ NL @ NL
                      @ e_body email @ NL)
               emails (fetched (new_events w w'))"
proof -
  from assms get_unread_emails_returns_iff[of env service n w]
  obtain emails w' where run: "get_unread_emails env service n w = (Inr emails, w')"
    by auto
  from get_unread_emails_Inr[OF run] assms(1) obtain items where
    i: "emails = map (\<lambda>(i, pl, b). make_email i pl b) items"
       "fetched (new_events w w') = map (\<lambda>(i, pl, b). (i, pl)) items"
       "map fst items = (case results of None \<Rightarrow> [] | Some messages \<Rightarrow> messages)"
    by blast
  have a: "list_all2
               (\<lambda>email (msg_id, pl).
                  e_id email = msg_id
                  \<and> (py ''Subject'' \<notin> header_names pl
                       \<longrightarrow> e_subject email = py ''(no subject)'')
                  \<and> (py ''From'' \<notin> header_names pl
                       \<longrightarrow> e_from email = py ''(unknown sender)'')
                  \<and> (py ''Date'' \<notin> header_names pl \<longrightarrow> e_date email = [])
                  \<and> email_to_memo_content email =
                      py ''#inbox #email'' @ NL @ NL
                      @ py ''**From:** '' @ e_from email @ NL
                      @ py ''**Subject:** '' @ e_subject email @ NL
                      @ py ''**Date:** '' @ e_date email @ NL @ NL
                      @ py ''---'' @ NL @ NL
                      @ e_body email @ NL)
               emails (fetched (new_events w w'))"
    unfolding i
    by (auto simp: list_all2_map1 list_all2_map2 make_email_def Let_def get_default_missing
        email_to_memo_content_def intro!: list_all2_same[THEN iffD2])
  have b: "map fst (fetched (new_events w w'))
             = (case results of None \<Rightarrow> [] | Some messages \<Rightarrow> messages)"
    using i(2,3) by (simp add: comp_def case_prod_unfold)
  from run a b show ?thesis by blast
qed

text \<open>
  An instance: the first message has none of the three headers, and its draft shows the
  defaults.
\<close>

theorem listing_substitutes_header_defaults_witness:
  "list_reply mail_env (trace demo_world) 10 = Inr (Some [py ''m1'', py ''m2''])
   \<and> fetches_ok mail_env [py ''m1'', py ''m2''] (trace demo_world @ [ListCall 10])
   \<and> fst (get_unread_emails mail_env (Service ''gmail'' ''v1'' demo_creds) 10 demo_world)
     = Inr [\<lparr>e_id = py ''m1'', e_subject = py ''(no subject)'',
             e_from = py ''(unknown sender)'', e_date = [], e_body = py ''hello''\<rparr>,
            \<lparr>e_id = py ''m2'', e_subject = py ''hi'', e_from = py ''bob'',
             e_date = py ''today'', e_body = [0x68, 0xE9, 0x69]\<rparr>]
   \<and> py ''Subject'' \<notin> header_names multipart_payload
   \<and> py ''From'' \<notin> header_names multipart_payload
   \<and> py ''Date'' \<notin> header_names multipart_payload
   \<and> email_to_memo_content
        \<lparr>e_id = py ''m1'', e_subject = py ''(no subject)'', e_from = py ''(unknown sender)'',
         e_date = [], e_body = py ''hello''\<rparr>
      = py ''#inbox #email'' @ NL @ NL
        @ py ''**From:** (unknown sender)'' @ NL
        @ py ''**Subject:** (no subject)'' @ NL
        @ py ''**Date:** '' @ NL @ NL
        @ py ''---'' @ NL @ NL
        @ py ''hello'' @ NL"
proof -
  have h1: "list_reply mail_env (trace demo_world) 10 = Inr (Some [py ''m1'', py ''m2''])"
    using mail_env_fetches_ok by simp
  have h2: "fetches_ok mail_env
              (case Some [py ''m1'', py ''m2''] of None \<Rightarrow> [] | Some messages \<Rightarrow> messages)
              (trace demo_world @ [ListCall 10])"
    using mail_env_fetches_ok by simp
  from listing_substitutes_header_defaults[OF h1 h2, of "Service ''gmail'' ''v1'' demo_creds"]
  obtain emails w' where
    "get_unread_emails mail_env (Service ''gmail'' ''v1'' demo_creds) 10 demo_world
       = (Inr emails, w')" by blast
  with mail_env_listing
  have "fst (get_unread_emails mail_env (Service ''gmail'' ''v1'' demo_creds) 10 demo_world)
     = Inr [\<lparr>e_id = py ''m1'', e_subject = py ''(no subject)'',
             e_from = py ''(unknown sender)'', e_date = [], e_body = py ''hello''\<rparr>,
            \<lparr>e_id = py ''m2'', e_subject = py ''hi'', e_from = py ''bob'',
             e_date = py ''today'', e_body = [0x68, 0xE9, 0x69]\<rparr>]"
    by simp
  moreover have "py ''Subject'' \<notin> header_names multipart_payload"
    "py ''From'' \<notin> header_names multipart_payload"
    "py ''Date'' \<notin> header_names multipart_payload"
    by (simp_all add: header_names_def multipart_payload_def py_def)
  moreover have "email_to_memo_content
        \<lparr>e_id = py ''m1'', e_subject = py ''(no subject)'', e_from = py ''(unknown sender)'',
         e_date = [], e_body = py ''hello''\<rparr>
      = py ''#inbox #email'' @ NL @ NL
        @ py ''**From:** (unknown sender)'' @ NL
        @ py ''**Subject:** (no subject)'' @ NL
        @ py ''**Date:** '' @ NL @ NL
        @ py ''---'' @ NL @ NL
        @ py ''hello'' @ NL"
    by (simp add: email_to_memo_content_def py_def)
  ultimately show ?thesis using h1 mail_env_fetches_ok by simp
qed

subsection \<open>The reminder of a calendar event\<close>

lemma inserted_append [simp]: "inserted (xs @ ys) = inserted xs @ inserted ys"
  by (induction xs rule: inserted.induct) simp_all

lemma get_calendar_service_trace:
  "\<exists>evs. trace (snd (get_calendar_service env w)) = trace w @ evs \<and> inserted evs = []"
  by (auto simp: get_calendar_service_def save_and_build_def save_token_def run_flow_def
      refresh_def split: option.splits sum.splits prod.splits)

lemma create_event_trace:
  "create_event env service title start end' description location reminder_minutes w = (r, w')
   \<Longrightarrow> trace w' = trace w @ [InsertCall (JObj (event_body title start end' description
                                              location reminder_minutes))]"
  by (auto simp: create_event_def Let_def split: sum.splits)

lemma event_body_reminders:
  "map_of (event_body title start end' description location reminder_minutes) ''reminders''
     = (case reminder_minutes of
          None \<Rightarrow> None
        | Some n \<Rightarrow>
            if n = 0 then None
            else Some (JObj [(''useDefault'', JBool False),
                             (''overrides'',
                              JList [JObj [(''method'', JStr ''popup''),
                                           (''minutes'', JInt n)]])]))"
  by (simp add: event_body_def split: option.splits)

text \<open>
  A run of \<^verbatim>\<open>main\<close> sends at most one event body, and that body is built from the
  description, the location and the reminder of the command line after defaults.
\<close>

lemma calendar_main_trace:
  "\<exists>evs. trace (snd (calendar_main env args w)) = trace w @ evs
     \<and> (inserted evs = []
        \<or> (\<exists>title start end'.
              inserted evs = [JObj (event_body title start end' (cli_description args)
                                      (cli_location args) (Some (args_reminder args)))]))"
proof (cases "cli_auth args")
  case True
  let ?w0 = "print (py ''Running OAuth flow...'') w"
  obtain r1 w1 where s: "get_calendar_service env ?w0 = (r1, w1)"
    by (cases "get_calendar_service env ?w0")
  from get_calendar_service_trace[of env ?w0] s
  obtain evs where "trace w1 = trace w @ evs" "inserted evs = []" by auto
  with True s show ?thesis
    by (auto simp: calendar_main_def split: sum.splits)
next
  case False
  let ?w0 = "print (py ''Connecting to Google Calendar...'') w"
  obtain r1 w1 where s: "get_calendar_service env ?w0 = (r1, w1)"
    by (cases "get_calendar_service env ?w0")
  from get_calendar_service_trace[of env ?w0] s
  obtain evs where e: "trace w1 = trace w @ evs" "inserted evs = []" by auto
  have ce: "trace w2 = trace w @ evs @ [InsertCall (JObj (event_body title start end'
              (cli_description args) (cli_location args) (Some (args_reminder args))))]"
    if "create_event env service title start end' (cli_description args) (cli_location args)
          (Some (args_reminder args)) w1 = (r, w2)" for service title start end' r w2
    using create_event_trace[OF that] e by simp
  show ?thesis
  proof (cases "given (cli_title args)")
    case None
    with False show ?thesis by (simp add: calendar_main_def)
  next
    case (Some title)
    show ?thesis
    proof (cases "given (cli_date args) = None \<and> given (cli_start args) = None")
      case True
      with False Some show ?thesis by (simp add: calendar_main_def)
    next
      case nb: False
      show ?thesis
      proof (cases r1)
        case (Inl x)
        with False Some nb s e show ?thesis by (simp add: calendar_main_def)
      next
        case (Inr service)
        let ?se = "(case given (cli_date args) of
                      Some date_str \<Rightarrow> all_day date_str
                    | None \<Rightarrow> timed (case cli_start args of None \<Rightarrow> [] | Some s \<Rightarrow> s)
                                (cli_end args) (args_timezone args))"
        show ?thesis
        proof (cases ?se)
          case (Inl x)
          with False Some nb s e \<open>r1 = Inr service\<close> show ?thesis
            by (simp add: calendar_main_def)
        next
          case se: (Inr p)
          obtain start end' where p: "p = (start, end')" by (cases p)
          obtain r2 w2 where c: "create_event env service title start end'
              (cli_description args) (cli_location args) (Some (args_reminder args)) w1
              = (r2, w2)"
            by (cases "create_event env service title start end'
              (cli_description args) (cli_location args) (Some (args_reminder args)) w1")
          from ce[OF c] e(2)
          have "trace w2 = trace w @ (evs @ [InsertCall (JObj (event_body title start end'
              (cli_description args) (cli_location args) (Some (args_reminder args))))])"
            "inserted (evs @ [InsertCall (JObj (event_body title start end'
              (cli_description args) (cli_location args) (Some (args_reminder args))))])
             = [JObj (event_body title start end'
              (cli_description args) (cli_location args) (Some (args_reminder args)))]"
            by simp_all
          then have "\<exists>evs'. trace w2 = trace w @ evs' \<and> (\<exists>title start end'.
              inserted evs' = [JObj (event_body title start end' (cli_description args)
                                      (cli_location args) (Some (args_reminder args)))])"
            by blast
          moreover have "trace (snd (calendar_main env args w)) = trace w2"
            using False Some nb s \<open>r1 = Inr service\<close> se p c
            by (simp add: calendar_main_def split: sum.splits option.splits)
          ultimately show ?thesis by auto
        qed
      qed
    qed
  qed
qed

text \<open>The example of the specification: a start without seconds and no end.\<close>

lemma timed_example:
  "timed ''2026-02-10 14:00'' None ''America/Phoenix''
   = Inr ([(''dateTime'', JStr ''2026-02-10T14:00:00''),
           (''timeZone'', JStr ''America/Phoenix'')],
          [(''dateTime'', JStr ''2026-02-10T15:00:00''),
           (''timeZone'', JStr ''America/Phoenix'')])"
  by code_simp

lemmas eval_calendar_main =
  calendar_main_def unset_cli_def given_def args_timezone_def args_reminder_def
  get_calendar_service_def mail_only_world_def demo_creds_def valid_def print_def
  create_event_def event_body_def demo_env_def emit_def new_events_def

text \<open>
  Claim C7 as stated fails where the reminder is unset: without \<^verbatim>\<open>--reminder\<close> on the
  command line the event body carries a reminder override, a pop-up 30 minutes before the
  start.
\<close>

theorem unset_reminder_sends_default_override:
  "cli_reminder unset_cli = None
   \<and> map reminders_of
        (inserted (new_events mail_only_world
                     (snd (calendar_main demo_env unset_cli mail_only_world))))
     = [Some (JObj [(''useDefault'', JBool False),
                    (''overrides'',
                     JList [JObj [(''method'', JStr ''popup''), (''minutes'', JInt 30)]])])]"
  using timed_example by (simp add: eval_calendar_main)

text \<open>
  Claim C7, amended. The event body built by \<^verbatim>\<open>create_event\<close> has no reminder override
  when the reminder lead time is zero (or \<^verbatim>\<open>None\<close>), and for every other lead time N it
  has exactly one override, a pop-up N minutes before the start. Every event body that
  \<^verbatim>\<open>main\<close> sends follows this rule for the lead time of the command line, which is 30
  when \<^verbatim>\<open>--reminder\<close> is not given.
\<close>

theorem reminder_override_iff_nonzero:
  "map_of (event_body title start end' description location reminder_minutes) ''reminders''
     = (case reminder_minutes of
          None \<Rightarrow> None
        | Some n \<Rightarrow>
            if n = 0 then None
            else Some (JObj [(''useDefault'', JBool False),
                             (''overrides'',
                              JList [JObj [(''method'', JStr ''popup''),
                                           (''minutes'', JInt n)]])]))
   \<and> (\<forall>body \<in> set (inserted (new_events w (snd (calendar_main env args w)))).
        reminders_of body
          = (if args_reminder args = 0 then None
             else Some (JObj [(''useDefault'', JBool False),
                             (''overrides'',
                              JList [JObj [(''method'', JStr ''popup''),
                                           (''minutes'', JInt (args_reminder args))]])])))
   \<and> args_reminder args = (case cli_reminder args of None \<Rightarrow> 30 | Some n \<Rightarrow> n)"
proof (intro conjI)
  from calendar_main_trace[of env args w] obtain evs where
    e: "trace (snd (calendar_main env args w)) = trace w @ evs"
       "inserted evs = [] \<or> (\<exists>title start end'.
              inserted evs = [JObj (event_body title start end' (cli_description args)
                                      (cli_location args) (Some (args_reminder args)))])"
    by blast
  from e(1) have "new_events w (snd (calendar_main env args w)) = evs"
    by (simp add: new_events_def)
  with e(2) show "\<forall>body \<in> set (inserted (new_events w (snd (calendar_main env args w)))).
        reminders_of body
          = (if args_reminder args = 0 then None
             else Some (JObj [(''useDefault'', JBool False),
                             (''overrides'',
                              JList [JObj [(''method'', JStr ''popup''),
                                           (''minutes'', JInt (args_reminder args))]])]))"
    by (auto simp: event_body_reminders)
qed (simp_all add: event_body_reminders args_reminder_def)

text \<open>
  An instance: with \<^verbatim>\<open>--reminder 0\<close> one event body is sent and it has no reminder
  override.
\<close>

theorem reminder_override_iff_nonzero_witness:
  "length (inserted (new_events mail_only_world
             (snd (calendar_main demo_env (unset_cli\<lparr>cli_reminder := Some 0\<rparr>)
                     mail_only_world)))) = 1
   \<and> reminders_of (hd (inserted (new_events mail_only_world
             (snd (calendar_main demo_env (unset_cli\<lparr>cli_reminder := Some 0\<rparr>)
                     mail_only_world))))) = None"
proof -
  let ?sent = "inserted (new_events mail_only_world
             (snd (calendar_main demo_env (unset_cli\<lparr>cli_reminder := Some 0\<rparr>)
                     mail_only_world)))"
  have l: "length ?sent = 1"
    using timed_example by (simp add: eval_calendar_main)
  then have "hd ?sent \<in> set ?sent" by (cases ?sent) simp_all
  with reminder_override_iff_nonzero[of _ _ _ _ _ _ mail_only_world demo_env
         "unset_cli\<lparr>cli_reminder := Some 0\<rparr>"]
  have "reminders_of (hd ?sent) = None"
    by (simp add: args_reminder_def unset_cli_def)
  with l show ?thesis by simp
qed

subsection \<open>A timed event without an end\<close>

lemma parse_datetime_seconds:
  "parse_datetime ''2026-02-10 14:00:30''
   = Inr [(''dateTime'', JStr ''2026-02-10T14:00:30''),
          (''timeZone'', JStr ''America/Phoenix'')]"
  by code_simp

lemma timed_seconds:
  "timed ''2026-02-10 14:00:30'' None ''America/Phoenix'' = Inl ValueError"
  by code_simp

text \<open>
  Claim C8, at the input where the code departs from it. The start
  \<^verbatim>\<open>2026-02-10 14:00:30\<close> parses under the second accepted format, and no end is given.
  \<^verbatim>\<open>main\<close> connects to the calendar service and then raises \<^verbatim>\<open>ValueError\<close> while it
  computes the default end, so no event is built or sent.
\<close>

theorem timed_event_with_seconds_raises:
  "parse_datetime ''2026-02-10 14:00:30''
     = Inr [(''dateTime'', JStr ''2026-02-10T14:00:30''),
            (''timeZone'', JStr ''America/Phoenix'')]
   \<and> cli_start seconds_cli = Some ''2026-02-10 14:00:30''
   \<and> cli_end seconds_cli = None
   \<and> calendar_main demo_env seconds_cli mail_only_world
     = (Inl ValueError, print (py ''Connecting to Google Calendar...'') mail_only_world)"
  using parse_datetime_seconds timed_seconds
  by (simp add: calendar_main_def seconds_cli_def unset_cli_def given_def args_timezone_def
      get_calendar_service_def mail_only_world_def demo_creds_def valid_def print_def)

end
